theory Spec2Isabelle
  imports Main
begin

section \<open>Data model\<close>

text \<open>
  The server keeps four MongoDB collections (users, appointments, payments, prescriptions).
  A document is a record, a collection is the list of its documents in insertion order, and a
  controller is a function from the store and the request to a response and the store it
  leaves behind. An ObjectId is a natural number; an instant (a JavaScript \<open>Date\<close>) is its
  number of milliseconds since the epoch. Status and role fields stay strings, as the
  controllers compare them.
\<close>

type_synonym oid = nat
type_synonym instant = int

record user =
  u_id :: oid
  u_role :: string

record appointment =
  a_id :: oid
  a_patientId :: oid
  a_doctorId :: oid
  a_dateTime :: instant
  a_note :: "string option"
  a_status :: string
  a_createdAt :: instant

record payment_details =
  phoneNumber :: "string option"
  accountNumber :: "string option"
  bankName :: "string option"
  referenceNumber :: "string option"

record payment =
  p_id :: oid
  p_appointmentId :: oid
  p_patientId :: oid
  p_doctorId :: oid
  p_amount :: int
  p_currency :: string
  p_paymentMethod :: string
  p_transactionId :: string
  p_status :: string
  p_paymentDetails :: payment_details
  p_notes :: "string option"
  p_createdAt :: instant
  p_updatedAt :: instant

record medication =
  m_name :: string
  m_dosage :: string
  m_frequency :: string
  m_duration :: string
  m_instructions :: "string option"
  m_quantity :: "string option"

record prescription =
  rx_id :: oid
  rx_appointmentId :: oid
  rx_doctorId :: oid
  rx_patientId :: oid
  rx_diagnosis :: string
  rx_medications :: "medication list"
  rx_instructions :: "string option"
  rx_followUpDate :: "instant option"
  rx_notes :: "string option"
  rx_status :: string
  rx_createdAt :: instant
  rx_updatedAt :: instant

record store =
  users :: "user list"
  appointments :: "appointment list"
  payments :: "payment list"
  prescriptions :: "prescription list"

text \<open>
  A controller answers with an HTTP status code and either a message (every
  \<open>return res.status(c).json({ message })\<close> of the source) or a payload together with the
  store after its writes. No controller writes before one of its error returns, so a
  failure leaves the store as it was.
\<close>

datatype 'a result = Fail nat string | Done nat 'a store

fun failed :: "'a result \<Rightarrow> bool" where
  "failed (Fail c m) = True"
| "failed (Done c x s) = False"

fun store_after :: "store \<Rightarrow> 'a result \<Rightarrow> store" where
  "store_after s (Fail c m) = s"
| "store_after s (Done c x s') = s'"

section \<open>Collections\<close>

text \<open>\<open>Model.findById(id)\<close>: the document with that \<open>_id\<close>, or null.\<close>

definition findUserById :: "store \<Rightarrow> oid \<Rightarrow> user option" where
  "findUserById s i = find (\<lambda>u. u_id u = i) (users s)"

definition findAppointmentById :: "store \<Rightarrow> oid \<Rightarrow> appointment option" where
  "findAppointmentById s i = find (\<lambda>a. a_id a = i) (appointments s)"

definition findPaymentById :: "store \<Rightarrow> oid \<Rightarrow> payment option" where
  "findPaymentById s i = find (\<lambda>p. p_id p = i) (payments s)"

definition findPrescriptionById :: "store \<Rightarrow> oid \<Rightarrow> prescription option" where
  "findPrescriptionById s i = find (\<lambda>r. rx_id r = i) (prescriptions s)"

text \<open>\<open>Model.findOne({ appointmentId })\<close>: the first document of that appointment, or null.\<close>

definition findPaymentByAppointment :: "store \<Rightarrow> oid \<Rightarrow> payment option" where
  "findPaymentByAppointment s i = find (\<lambda>p. p_appointmentId p = i) (payments s)"


text \<open>
  \<open>doc.save()\<close> on a document that was read from the collection writes it back in the
  place of the document \<open>findById\<close> returned.
\<close>

fun replace_first :: "('a \<Rightarrow> bool) \<Rightarrow> 'a \<Rightarrow> 'a list \<Rightarrow> 'a list" where
  "replace_first P y [] = []"
| "replace_first P y (x # xs) = (if P x then y # xs else x # replace_first P y xs)"

definition saveAppointment :: "appointment \<Rightarrow> store \<Rightarrow> store" where
  "saveAppointment a s =
     s\<lparr>appointments := replace_first (\<lambda>b. a_id b = a_id a) a (appointments s)\<rparr>"

definition savePayment :: "payment \<Rightarrow> store \<Rightarrow> store" where
  "savePayment p s =
     s\<lparr>payments := replace_first (\<lambda>q. p_id q = p_id p) p (payments s)\<rparr>"

definition savePrescription :: "prescription \<Rightarrow> store \<Rightarrow> store" where
  "savePrescription r s =
     s\<lparr>prescriptions := replace_first (\<lambda>q. rx_id q = rx_id r) r (prescriptions s)\<rparr>"

text \<open>
  \<open>new Model(...)\<close> gives the document an ObjectId that no document of the collection has;
  the model takes the successor of the largest one in use.
\<close>

definition new_ObjectId :: "oid list \<Rightarrow> oid" where
  "new_ObjectId ids = Suc (fold max ids 0)"

section \<open>Appointment controller\<close>

definition appointment_statuses :: "string list" where
  "appointment_statuses =
     [''pending'', ''confirmed'', ''paid'', ''consultation'', ''completed'', ''cancelled'']"

text \<open>
  \<open>updateAppointmentStatus\<close> (appointmentController.js): the status of the request body is
  checked against the enumeration first, then the appointment is looked up, then the caller
  is compared with the appointment's doctor, and the status is stored as given.
\<close>

definition updateAppointmentStatus ::
  "store \<Rightarrow> user \<Rightarrow> oid \<Rightarrow> string \<Rightarrow> appointment result" where
  "updateAppointmentStatus s caller i status =
     (if status \<notin> set appointment_statuses then Fail 400 ''Invalid status''
      else case findAppointmentById s i of
        None \<Rightarrow> Fail 404 ''Appointment not found''
      | Some appointment \<Rightarrow>
          if a_doctorId appointment \<noteq> u_id caller then Fail 403 ''Not authorized''
          else let appointment' = appointment\<lparr>a_status := status\<rparr>
               in Done 200 appointment' (saveAppointment appointment' s))"

text \<open>
  A JavaScript \<open>Date\<close> holds at most 8640000000000000 ms either side of the epoch; beyond
  that \<open>new Date(t)\<close> is an Invalid Date, which a query cannot cast.
\<close>

definition valid_Date :: "instant \<Rightarrow> bool" where
  "valid_Date t = (\<bar>t\<bar> \<le> 8640000000000000)"

text \<open>
  \<open>bookAppointment\<close>: the doctor is looked up first (missing, or not of role \<open>doctor\<close>:
  404), then the requested instant is compared with the clock, then the collection is
  searched for an appointment of that doctor whose \<open>dateTime\<close> lies within 30 minutes
  (\<open>30 * 60000\<close> ms) on either side and whose status is \<open>pending\<close> or \<open>confirmed\<close>. The two
  bounds of that search are built with \<open>new Date(appointmentDate.getTime() - 30 * 60000)\<close>
  and \<open>new Date(appointmentDate.getTime() + 30 * 60000)\<close>; when one of them is an Invalid
  Date the query throws and the \<open>catch\<close> answers 500. The new document gets the schema's
  defaults: status \<open>pending\<close>, \<open>createdAt\<close> the clock.
\<close>

definition conflicting :: "oid \<Rightarrow> instant \<Rightarrow> appointment \<Rightarrow> bool" where
  "conflicting doctorId appointmentDate a =
     (a_doctorId a = doctorId
      \<and> appointmentDate - 30 * 60000 \<le> a_dateTime a
      \<and> a_dateTime a \<le> appointmentDate + 30 * 60000
      \<and> a_status a \<in> set [''pending'', ''confirmed''])"

definition bookAppointment ::
  "instant \<Rightarrow> store \<Rightarrow> user \<Rightarrow> oid \<Rightarrow> instant \<Rightarrow> string option \<Rightarrow> appointment result" where
  "bookAppointment now s caller doctorId dateTime note =
     (let patientId = u_id caller in
      case findUserById s doctorId of
        None \<Rightarrow> Fail 404 ''Doctor not found''
      | Some doctor \<Rightarrow>
          if u_role doctor \<noteq> ''doctor'' then Fail 404 ''Doctor not found''
          else if dateTime \<le> now then Fail 400 ''Appointment must be in the future''
          else if \<not> valid_Date (dateTime - 30 * 60000) \<or> \<not> valid_Date (dateTime + 30 * 60000)
          then Fail 500 ''Server error''
          else case find (conflicting doctorId dateTime) (appointments s) of
            Some conflictingAppointment \<Rightarrow> Fail 400 ''Time slot not available''
          | None \<Rightarrow>
              let appointment =
                    \<lparr>a_id = new_ObjectId (map a_id (appointments s)),
                     a_patientId = patientId, a_doctorId = doctorId, a_dateTime = dateTime,
                     a_note = note, a_status = ''pending'', a_createdAt = now\<rparr>
              in Done 201 appointment (s\<lparr>appointments := appointments s @ [appointment]\<rparr>))"

text \<open>
  \<open>getMyAppointments\<close>: the query filter is built field by field (the participant by role,
  the status when the query parameter is truthy, \<open>dateTime >= now\<close> when \<open>upcoming\<close> is the
  string \<open>true\<close>), and the matching documents are sorted by \<open>dateTime\<close> ascending.
\<close>

record appointment_filter =
  f_patientId :: "oid option"
  f_doctorId :: "oid option"
  f_status :: "string option"
  f_dateTime_gte :: "instant option"

definition matches :: "appointment_filter \<Rightarrow> appointment \<Rightarrow> bool" where
  "matches f a =
     ((case f_patientId f of None \<Rightarrow> True | Some i \<Rightarrow> a_patientId a = i)
      \<and> (case f_doctorId f of None \<Rightarrow> True | Some i \<Rightarrow> a_doctorId a = i)
      \<and> (case f_status f of None \<Rightarrow> True | Some st \<Rightarrow> a_status a = st)
      \<and> (case f_dateTime_gte f of None \<Rightarrow> True | Some t \<Rightarrow> t \<le> a_dateTime a))"

text \<open>JavaScript truthiness of an optional string: absent and the empty string are falsy.\<close>

fun truthy :: "string option \<Rightarrow> bool" where
  "truthy None = False"
| "truthy (Some v) = (v \<noteq> [])"

definition my_filter ::
  "instant \<Rightarrow> user \<Rightarrow> string option \<Rightarrow> string option \<Rightarrow> appointment_filter" where
  "my_filter now caller status upcoming =
     \<lparr>f_patientId = (if u_role caller = ''patient'' then Some (u_id caller) else None),
      f_doctorId = (if u_role caller = ''patient'' then None
                    else if u_role caller = ''doctor'' then Some (u_id caller) else None),
      f_status = (if truthy status then status else None),
      f_dateTime_gte = (if upcoming = Some ''true'' then Some now else None)\<rparr>"

definition getMyAppointments ::
  "instant \<Rightarrow> store \<Rightarrow> user \<Rightarrow> string option \<Rightarrow> string option
   \<Rightarrow> appointment list result" where
  "getMyAppointments now s caller status upcoming =
     Done 200
       (sort_key a_dateTime
          (filter (matches (my_filter now caller status upcoming)) (appointments s)))
       s"

section \<open>Payment controller\<close>

definition payment_methods :: "string list" where
  "payment_methods =
     [''telebirr'', ''cbe_birr'', ''dashen_bank'', ''awash_bank'', ''bank_of_abyssinia'',
      ''united_bank'', ''lion_bank'', ''cooperative_bank'', ''nib_bank'', ''wegagen_bank'']"

definition payment_statuses :: "string list" where
  "payment_statuses = [''pending'', ''completed'', ''failed'', ''cancelled'']"

text \<open>
  \<open>generateTransactionId\<close>: \<open>TXN\<close>, then \<open>Date.now().toString()\<close>, then six characters
  drawn from \<open>Math.random()\<close>; the clock's digits and the random characters are the two
  arguments.
\<close>

definition generateTransactionId :: "string \<Rightarrow> string \<Rightarrow> string" where
  "generateTransactionId timestamp random = ''TXN'' @ timestamp @ random"

text \<open>
  What \<open>payment.save()\<close> checks of the paths \<open>createPayment\<close> sets (payment schema):
  \<open>paymentMethod\<close> is required and one of the enumeration, and \<open>transactionId\<close> carries a
  unique index, so no other document may hold the same one. A rejected save throws; the
  controller's \<open>catch\<close> answers 500 and nothing is written.
\<close>

definition payment_saves :: "payment \<Rightarrow> payment list \<Rightarrow> bool" where
  "payment_saves p ps =
     (p_paymentMethod p \<in> set payment_methods
      \<and> list_all (\<lambda>q. p_id q = p_id p \<or> p_transactionId q \<noteq> p_transactionId p) ps)"

text \<open>
  The tail of \<open>createPayment\<close>, which builds and saves a new payment. The appointment was
  read with its doctor populated: a doctor whose user document is gone populates to null,
  and \<open>appointment.doctorId._id\<close> then throws (500).
\<close>

definition createPayment_new ::
  "string \<Rightarrow> string \<Rightarrow> instant \<Rightarrow> store \<Rightarrow> oid \<Rightarrow> appointment \<Rightarrow> oid \<Rightarrow> string
   \<Rightarrow> payment_details \<Rightarrow> payment result" where
  "createPayment_new timestamp random now s patientId appointment appointmentId paymentMethod
     paymentDetails =
     (case findUserById s (a_doctorId appointment) of
        None \<Rightarrow> Fail 500 ''Server error''
      | Some doctor \<Rightarrow>
          let amount = 500;
              payment =
                \<lparr>p_id = new_ObjectId (map p_id (payments s)),
                 p_appointmentId = appointmentId, p_patientId = patientId,
                 p_doctorId = u_id doctor, p_amount = amount, p_currency = ''ETB'',
                 p_paymentMethod = paymentMethod,
                 p_transactionId = generateTransactionId timestamp random,
                 p_status = ''pending'', p_paymentDetails = paymentDetails,
                 p_notes = None, p_createdAt = now, p_updatedAt = now\<rparr>
          in if payment_saves payment (payments s)
             then Done 201 payment (s\<lparr>payments := payments s @ [payment]\<rparr>)
             else Fail 500 ''Server error'')"

text \<open>
  \<open>createPayment\<close>: lookup, the caller must be the appointment's patient, the appointment
  must be \<open>confirmed\<close>; then the first payment of the appointment decides. A payment found
  in a status outside the four of the schema falls through every \<open>if\<close> to the creation of a
  new document, as in the source.
\<close>

definition createPayment ::
  "string \<Rightarrow> string \<Rightarrow> instant \<Rightarrow> store \<Rightarrow> user \<Rightarrow> oid \<Rightarrow> string \<Rightarrow> payment_details
   \<Rightarrow> payment result" where
  "createPayment timestamp random now s caller appointmentId paymentMethod paymentDetails =
     (let patientId = u_id caller in
      case findAppointmentById s appointmentId of
        None \<Rightarrow> Fail 404 ''Appointment not found''
      | Some appointment \<Rightarrow>
          if a_patientId appointment \<noteq> patientId
          then Fail 403 ''Not authorized to pay for this appointment''
          else if a_status appointment \<noteq> ''confirmed''
          then Fail 400 ''Appointment must be confirmed before payment''
          else case findPaymentByAppointment s appointmentId of
            None \<Rightarrow>
              createPayment_new timestamp random now s patientId appointment appointmentId
                paymentMethod paymentDetails
          | Some existingPayment \<Rightarrow>
              if p_status existingPayment = ''completed''
              then Fail 400 ''Payment already completed for this appointment''
              else if p_status existingPayment = ''pending''
              then Fail 400 ''Payment already exists for this appointment''
              else if p_status existingPayment = ''failed''
                      \<or> p_status existingPayment = ''cancelled''
              then let existingPayment' = existingPayment
                         \<lparr>p_paymentMethod := paymentMethod,
                          p_paymentDetails := paymentDetails,
                          p_transactionId := generateTransactionId timestamp random,
                          p_status := ''pending'', p_notes := Some [],
                          p_updatedAt := now\<rparr>
                   in if payment_saves existingPayment' (payments s)
                      then Done 200 existingPayment' (savePayment existingPayment' s)
                      else Fail 500 ''Server error''
              else createPayment_new timestamp random now s patientId appointment
                     appointmentId paymentMethod paymentDetails)"

text \<open>
  \<open>updatePaymentStatus\<close>: status against the enumeration, lookup, authorisation (the
  payment's patient, its doctor, or role \<open>admin\<close>), then \<open>payment.save()\<close>: the save checks
  the document against the payment schema as in \<open>createPayment\<close>, a rejected save throws and
  the \<open>catch\<close> answers 500 with nothing written; an accepted one stores the payment (the
  schema's \<open>pre('save')\<close> hook stamps \<open>updatedAt\<close>). When the status is \<open>completed\<close>
  \<open>Appointment.findByIdAndUpdate(payment.appointmentId, { status: 'paid' })\<close> follows, which
  does nothing when no such appointment is left.
\<close>

definition findAppointmentByIdAndUpdate_status :: "oid \<Rightarrow> string \<Rightarrow> store \<Rightarrow> store" where
  "findAppointmentByIdAndUpdate_status i st s =
     (case findAppointmentById s i of
        None \<Rightarrow> s
      | Some a \<Rightarrow> saveAppointment (a\<lparr>a_status := st\<rparr>) s)"

definition updatePaymentStatus ::
  "instant \<Rightarrow> store \<Rightarrow> user \<Rightarrow> oid \<Rightarrow> string \<Rightarrow> string option \<Rightarrow> payment result" where
  "updatePaymentStatus now s caller i status notes =
     (if status \<notin> set payment_statuses then Fail 400 ''Invalid status''
      else case findPaymentById s i of
        None \<Rightarrow> Fail 404 ''Payment not found''
      | Some payment \<Rightarrow>
          let isAuthorized =
                (p_patientId payment = u_id caller
                 \<or> p_doctorId payment = u_id caller
                 \<or> u_role caller = ''admin'')
          in if \<not> isAuthorized then Fail 403 ''Not authorized''
             else let payment' = payment
                        \<lparr>p_status := status,
                         p_notes := (if truthy notes then notes else p_notes payment),
                         p_updatedAt := now\<rparr>
                  in if \<not> payment_saves payment' (payments s) then Fail 500 ''Server error''
                     else let s' = savePayment payment' s;
                              s'' = (if status = ''completed''
                                     then findAppointmentByIdAndUpdate_status
                                            (p_appointmentId payment') ''paid'' s'
                                     else s')
                          in Done 200 payment' s'')"

section \<open>Prescription controller\<close>

text \<open>
  The fields a prescription request may carry. An absent field is \<open>None\<close>; a follow-up date
  is the instant its text denotes, absent or empty text being \<open>None\<close>.
\<close>

record prescription_fields =
  b_diagnosis :: "string option"
  b_medications :: "medication list option"
  b_instructions :: "string option"
  b_followUpDate :: "instant option"
  b_notes :: "string option"
  b_status :: "string option"

definition prescription_statuses :: "string list" where
  "prescription_statuses = [''active'', ''completed'', ''cancelled'']"

text \<open>
  What \<open>prescription.save()\<close> checks of a new document (prescription schema): \<open>diagnosis\<close>
  and the four main fields of every medication are required, and a required string must
  not be empty; \<open>status\<close> is one of its enumeration. A rejected save throws, and the
  controller's \<open>catch\<close> answers 500.
\<close>

definition medication_valid :: "medication \<Rightarrow> bool" where
  "medication_valid m =
     (m_name m \<noteq> [] \<and> m_dosage m \<noteq> [] \<and> m_frequency m \<noteq> [] \<and> m_duration m \<noteq> [])"





text \<open>
  \<open>updatePrescription\<close>: lookup, authorisation (the prescription's doctor, or role
  \<open>admin\<close>), then one guarded assignment per field, \<open>if (field) prescription.field = field\<close>
  (\<open>assign_fields\<close>, which also carries the \<open>updatedAt\<close> stamp of the schema's
  \<open>pre('save')\<close> hook): a string is assigned when it is present and not empty, the
  medication list whenever it is present (a JavaScript array is truthy even when empty).
  The save checks the paths that were assigned.
\<close>

fun assign_string :: "string option \<Rightarrow> string \<Rightarrow> string" where
  "assign_string None old = old"
| "assign_string (Some v) old = (if v \<noteq> [] then v else old)"

fun assign_optional :: "string option \<Rightarrow> string option \<Rightarrow> string option" where
  "assign_optional None old = old"
| "assign_optional (Some v) old = (if v \<noteq> [] then Some v else old)"

definition assign_fields ::
  "instant \<Rightarrow> prescription_fields \<Rightarrow> prescription \<Rightarrow> prescription" where
  "assign_fields now body prescription =
     prescription
       \<lparr>rx_diagnosis := assign_string (b_diagnosis body) (rx_diagnosis prescription),
        rx_medications :=
          (case b_medications body of
             None \<Rightarrow> rx_medications prescription | Some ms \<Rightarrow> ms),
        rx_instructions :=
          assign_optional (b_instructions body) (rx_instructions prescription),
        rx_followUpDate :=
          (case b_followUpDate body of
             None \<Rightarrow> rx_followUpDate prescription | Some d \<Rightarrow> Some d),
        rx_notes := assign_optional (b_notes body) (rx_notes prescription),
        rx_status := assign_string (b_status body) (rx_status prescription),
        rx_updatedAt := now\<rparr>"

definition updatePrescription ::
  "instant \<Rightarrow> store \<Rightarrow> user \<Rightarrow> oid \<Rightarrow> prescription_fields \<Rightarrow> prescription result" where
  "updatePrescription now s caller i body =
     (case findPrescriptionById s i of
        None \<Rightarrow> Fail 404 ''Prescription not found''
      | Some prescription \<Rightarrow>
          let isAuthorized =
                (rx_doctorId prescription = u_id caller \<or> u_role caller = ''admin'')
          in if \<not> isAuthorized then Fail 403 ''Not authorized''
             else let prescription' = assign_fields now body prescription
                  in if (case b_medications body of
                           None \<Rightarrow> True | Some ms \<Rightarrow> list_all medication_valid ms)
                        \<and> (\<not> truthy (b_status body)
                             \<or> rx_status prescription' \<in> set prescription_statuses)
                     then Done 200 prescription' (savePrescription prescription' s)
                     else Fail 500 ''Server error'')"

text \<open>
  \<open>startConsultation\<close> (prescriptionController.js): lookup, ownership, then the status must
  be \<open>paid\<close>; the appointment is saved with status \<open>consultation\<close>.
\<close>

definition startConsultation :: "store \<Rightarrow> user \<Rightarrow> oid \<Rightarrow> appointment result" where
  "startConsultation s caller appointmentId =
     (case findAppointmentById s appointmentId of
        None \<Rightarrow> Fail 404 ''Appointment not found''
      | Some appointment \<Rightarrow>
          if a_doctorId appointment \<noteq> u_id caller then Fail 403 ''Not authorized''
          else if a_status appointment \<noteq> ''paid''
          then Fail 400 ''Appointment must be paid before starting consultation''
          else let appointment' = appointment\<lparr>a_status := ''consultation''\<rparr>
               in Done 200 appointment' (saveAppointment appointment' s))"

section \<open>The transition graph of the specification\<close>

text \<open>
  Modelled from the spec: the transition graph of its section 4.1, which no source file
  declares. An edge is a status change the specification draws.
\<close>

definition spec_transition :: "string \<Rightarrow> string \<Rightarrow> bool" where
  "spec_transition from to =
     ((from, to) \<in> set
        [(''pending'', ''confirmed''), (''confirmed'', ''paid''),
         (''pending'', ''cancelled''), (''confirmed'', ''cancelled''),
         (''paid'', ''consultation''), (''consultation'', ''completed''),
         (''confirmed'', ''completed'')])"

section \<open>A small clinic\<close>

text \<open>
  One doctor, one patient and one appointment between them, with the payments,
  prescriptions and requests the concrete runs below use.
\<close>

definition demo_doctor :: user where
  "demo_doctor = \<lparr>u_id = 1, u_role = ''doctor''\<rparr>"

definition demo_patient :: user where
  "demo_patient = \<lparr>u_id = 2, u_role = ''patient''\<rparr>"

definition demo_appointment :: "string \<Rightarrow> appointment" where
  "demo_appointment st =
     \<lparr>a_id = 10, a_patientId = 2, a_doctorId = 1, a_dateTime = 5000000,
      a_note = None, a_status = st, a_createdAt = 0\<rparr>"

definition demo_store :: "string \<Rightarrow> store" where
  "demo_store st =
     \<lparr>users = [demo_doctor, demo_patient], appointments = [demo_appointment st],
      payments = [], prescriptions = []\<rparr>"

definition demo_payment :: "string \<Rightarrow> payment" where
  "demo_payment st =
     \<lparr>p_id = 20, p_appointmentId = 10, p_patientId = 2, p_doctorId = 1, p_amount = 500,
      p_currency = ''ETB'', p_paymentMethod = ''telebirr'',
      p_transactionId = ''TXN1700000000000ABC123'', p_status = st,
      p_paymentDetails = \<lparr>phoneNumber = Some ''0911000000'', accountNumber = None,
                          bankName = None, referenceNumber = None\<rparr>,
      p_notes = None, p_createdAt = 0, p_updatedAt = 0\<rparr>"

definition demo_details :: payment_details where
  "demo_details =
     \<lparr>phoneNumber = Some ''0911000000'', accountNumber = None, bankName = None,
      referenceNumber = Some ''REF42''\<rparr>"

definition demo_store_with :: "string \<Rightarrow> string \<Rightarrow> store" where
  "demo_store_with st pst = (demo_store st)\<lparr>payments := [demo_payment pst]\<rparr>"

definition demo_schedule :: store where
  "demo_schedule =
     \<lparr>users = [demo_doctor, demo_patient],
      appointments =
        [\<lparr>a_id = 12, a_patientId = 2, a_doctorId = 1, a_dateTime = 9000000,
          a_note = None, a_status = ''pending'', a_createdAt = 0\<rparr>,
         demo_appointment ''paid'',
         \<lparr>a_id = 13, a_patientId = 3, a_doctorId = 1, a_dateTime = 7000000,
          a_note = Some ''first visit'', a_status = ''confirmed'', a_createdAt = 0\<rparr>],
      payments = [], prescriptions = []\<rparr>"

definition demo_medication :: medication where
  "demo_medication =
     \<lparr>m_name = ''Paracetamol'', m_dosage = ''500mg'', m_frequency = ''2x/day'',
      m_duration = ''5 days'', m_instructions = None, m_quantity = None\<rparr>"

definition demo_prescription :: prescription where
  "demo_prescription =
     \<lparr>rx_id = 30, rx_appointmentId = 10, rx_doctorId = 1, rx_patientId = 2,
      rx_diagnosis = ''Flu'', rx_medications = [demo_medication],
      rx_instructions = Some ''Rest'', rx_followUpDate = None, rx_notes = None,
      rx_status = ''active'', rx_createdAt = 0, rx_updatedAt = 0\<rparr>"

definition demo_pharmacy :: store where
  "demo_pharmacy = (demo_store ''consultation'')\<lparr>prescriptions := [demo_prescription]\<rparr>"

definition no_fields :: prescription_fields where
  "no_fields =
     \<lparr>b_diagnosis = None, b_medications = None, b_instructions = None,
      b_followUpDate = None, b_notes = None, b_status = None\<rparr>"


definition demo_update :: prescription_fields where
  "demo_update = no_fields\<lparr>b_diagnosis := Some [], b_notes := Some ''Review in a week''\<rparr>"


definition demo_other_payment :: payment where
  "demo_other_payment =
     (demo_payment ''pending'')
       \<lparr>p_id := 21, p_appointmentId := 11, p_transactionId := ''TXN1700000000001XYZ789''\<rparr>"



definition demo_last_appointment :: appointment where
  "demo_last_appointment = (demo_appointment ''pending'')\<lparr>a_dateTime := 8639999999000000\<rparr>"

definition demo_last_day :: store where
  "demo_last_day = (demo_store ''pending'')\<lparr>appointments := [demo_last_appointment]\<rparr>"

section \<open>Facts about the collections\<close>

lemma find_replace_first:
  "P y \<Longrightarrow> find P (replace_first P y xs) = (case find P xs of None \<Rightarrow> None | Some x \<Rightarrow> Some y)"
  by (induction xs) auto

lemma find_replace_first_other:
  "\<not> Q y \<Longrightarrow> (\<And>x. P x \<Longrightarrow> \<not> Q x) \<Longrightarrow> find Q (replace_first P y xs) = find Q xs"
  by (induction xs) auto

lemma findAppointmentById_save:
  "findAppointmentById s (a_id a) = Some b \<Longrightarrow>
   findAppointmentById (saveAppointment a s) (a_id a) = Some a"
  by (simp add: findAppointmentById_def saveAppointment_def find_replace_first)

lemma findAppointmentById_save_other:
  "j \<noteq> a_id a \<Longrightarrow>
   findAppointmentById (saveAppointment a s) j = findAppointmentById s j"
  unfolding findAppointmentById_def saveAppointment_def
  by (simp, rule find_replace_first_other) auto

lemma findAppointmentById_id:
  "findAppointmentById s i = Some a \<Longrightarrow> a_id a = i"
  by (auto simp: findAppointmentById_def find_Some_iff)

section \<open>Order of the checks in updateAppointmentStatus\<close>

lemma updateAppointmentStatus_invalid:
  "status \<notin> set appointment_statuses \<Longrightarrow>
   updateAppointmentStatus s caller i status = Fail 400 ''Invalid status''"
  by (simp add: updateAppointmentStatus_def)

lemma updateAppointmentStatus_404:
  "updateAppointmentStatus s caller i status = Fail 404 m \<Longrightarrow>
   status \<in> set appointment_statuses \<and> findAppointmentById s i = None"
  by (auto simp: updateAppointmentStatus_def Let_def split: if_splits option.splits)

text \<open>
  Claim C10. In \<open>updateAppointmentStatus\<close> the status of the request is checked against the
  six enumerated values before the appointment is looked up: a status outside the
  enumeration is answered 400 \<open>Invalid status\<close> whatever the store holds, also when the
  appointment does not exist, and the 404 answer is given only when the status is one of the
  enumeration (and no appointment has the id).
\<close>

theorem updateStatus_checks_status_before_lookup:
  "(status \<notin> set appointment_statuses \<longrightarrow>
      updateAppointmentStatus s caller i status = Fail 400 ''Invalid status'')
   \<and> (updateAppointmentStatus s caller i status = Fail 404 m \<longrightarrow>
      status \<in> set appointment_statuses \<and> findAppointmentById s i = None)"
  using updateAppointmentStatus_invalid updateAppointmentStatus_404 by blast

theorem updateStatus_checks_status_before_lookup_witness:
  "''archived'' \<notin> set appointment_statuses
   \<and> findAppointmentById (demo_store ''pending'') 99 = None
   \<and> updateAppointmentStatus (demo_store ''pending'') demo_doctor 99 ''archived''
       = Fail 400 ''Invalid status''
   \<and> updateAppointmentStatus (demo_store ''pending'') demo_doctor 99 ''confirmed''
       = Fail 404 ''Appointment not found''
   \<and> ''confirmed'' \<in> set appointment_statuses"
proof -
  have out: "''archived'' \<notin> set appointment_statuses"
    by (simp add: appointment_statuses_def)
  have missing: "updateAppointmentStatus (demo_store ''pending'') demo_doctor 99 ''confirmed''
       = Fail 404 ''Appointment not found''"
    by (simp add: updateAppointmentStatus_def appointment_statuses_def findAppointmentById_def
        demo_store_def demo_appointment_def)
  from updateStatus_checks_status_before_lookup
    [of "''archived''" "demo_store ''pending''" demo_doctor 99 "''Appointment not found''"]
    updateStatus_checks_status_before_lookup
    [of "''confirmed''" "demo_store ''pending''" demo_doctor 99 "''Appointment not found''"]
    out missing
  show ?thesis by simp
qed

section \<open>Status changes through updateAppointmentStatus\<close>

lemma updateAppointmentStatus_done:
  assumes "findAppointmentById s i = Some a" and "a_doctorId a = u_id caller"
    and "status \<in> set appointment_statuses"
  shows "updateAppointmentStatus s caller i status
         = Done 200 (a\<lparr>a_status := status\<rparr>) (saveAppointment (a\<lparr>a_status := status\<rparr>) s)"
  using assms by (simp add: updateAppointmentStatus_def Let_def)

lemma saveAppointment_reread:
  assumes "findAppointmentById s i = Some a"
  shows "findAppointmentById (saveAppointment (a\<lparr>a_status := st\<rparr>) s) i
         = Some (a\<lparr>a_status := st\<rparr>)"
proof -
  have i: "a_id (a\<lparr>a_status := st\<rparr>) = i"
    using assms by (simp add: findAppointmentById_id)
  show ?thesis
    using findAppointmentById_save [of s "a\<lparr>a_status := st\<rparr>" a] assms i by simp
qed

lemma saveAppointment_frame:
  assumes "findAppointmentById s i = Some a" and "j \<noteq> i"
  shows "findAppointmentById (saveAppointment (a\<lparr>a_status := st\<rparr>) s) j
         = findAppointmentById s j"
proof -
  have "j \<noteq> a_id (a\<lparr>a_status := st\<rparr>)"
    using assms by (simp add: findAppointmentById_id)
  then show ?thesis by (rule findAppointmentById_save_other)
qed

text \<open>
  Claim C1 as stated: under the controller's operations a status only moves along an edge
  of the transition graph, and \<open>cancelled\<close> is entered only from \<open>pending\<close> and \<open>confirmed\<close>.
  The appointment's doctor moves a \<open>pending\<close> appointment to \<open>completed\<close> and a \<open>paid\<close> one
  to \<open>cancelled\<close> in one call each; neither is an edge.
\<close>

theorem updateStatus_skips_states_counterexample:
  "updateAppointmentStatus (demo_store ''pending'') demo_doctor 10 ''completed''
     = Done 200 (demo_appointment ''completed'') (demo_store ''completed'')
   \<and> \<not> spec_transition ''pending'' ''completed''
   \<and> updateAppointmentStatus (demo_store ''paid'') demo_doctor 10 ''cancelled''
     = Done 200 (demo_appointment ''cancelled'') (demo_store ''cancelled'')
   \<and> \<not> spec_transition ''paid'' ''cancelled''"
  by (simp add: updateAppointmentStatus_def appointment_statuses_def findAppointmentById_def
      saveAppointment_def demo_store_def demo_appointment_def demo_doctor_def
      spec_transition_def Let_def)

text \<open>
  Claim C1 as amended: \<open>updateAppointmentStatus\<close> checks no transition. Whatever the
  current status of an appointment, a call by its doctor with any of the six enumerated
  statuses succeeds and stores exactly that status; re-reading the appointment shows it, and
  every other appointment reads as before.
\<close>

theorem updateStatus_stores_any_enumerated_status:
  assumes "findAppointmentById s i = Some a" and "a_doctorId a = u_id caller"
    and "status \<in> set appointment_statuses"
  shows "updateAppointmentStatus s caller i status
           = Done 200 (a\<lparr>a_status := status\<rparr>) (saveAppointment (a\<lparr>a_status := status\<rparr>) s)
         \<and> findAppointmentById (store_after s (updateAppointmentStatus s caller i status)) i
           = Some (a\<lparr>a_status := status\<rparr>)
         \<and> (\<forall>j. j \<noteq> i \<longrightarrow>
              findAppointmentById (store_after s (updateAppointmentStatus s caller i status)) j
              = findAppointmentById s j)"
  using updateAppointmentStatus_done [OF assms] saveAppointment_reread [OF assms(1)]
    saveAppointment_frame [OF assms(1)]
  by simp

theorem updateStatus_stores_any_enumerated_status_witness:
  "findAppointmentById (demo_store ''consultation'') 10 = Some (demo_appointment ''consultation'')
   \<and> a_doctorId (demo_appointment ''consultation'') = u_id demo_doctor
   \<and> ''pending'' \<in> set appointment_statuses
   \<and> updateAppointmentStatus (demo_store ''consultation'') demo_doctor 10 ''pending''
       = Done 200 (demo_appointment ''pending'') (demo_store ''pending'')
   \<and> findAppointmentById
        (store_after (demo_store ''consultation'')
           (updateAppointmentStatus (demo_store ''consultation'') demo_doctor 10 ''pending'')) 10
       = Some (demo_appointment ''pending'')"
proof -
  have found: "findAppointmentById (demo_store ''consultation'') 10
               = Some (demo_appointment ''consultation'')"
    by (simp add: findAppointmentById_def demo_store_def demo_appointment_def)
  have owner: "a_doctorId (demo_appointment ''consultation'') = u_id demo_doctor"
    by (simp add: demo_appointment_def demo_doctor_def)
  have member: "''pending'' \<in> set appointment_statuses"
    by (simp add: appointment_statuses_def)
  have upd: "(demo_appointment ''consultation'')\<lparr>a_status := ''pending''\<rparr>
             = demo_appointment ''pending''"
    by (simp add: demo_appointment_def)
  have sv: "saveAppointment (demo_appointment ''pending'') (demo_store ''consultation'')
            = demo_store ''pending''"
    by (simp add: saveAppointment_def demo_store_def demo_appointment_def)
  from updateStatus_stores_any_enumerated_status [OF found owner member] found owner member
  show ?thesis by (auto simp: upd sv)
qed

section \<open>Starting a consultation\<close>

lemma startConsultation_done:
  assumes "findAppointmentById s i = Some a" and "a_doctorId a = u_id caller"
    and "a_status a = ''paid''"
  shows "startConsultation s caller i
         = Done 200 (a\<lparr>a_status := ''consultation''\<rparr>)
             (saveAppointment (a\<lparr>a_status := ''consultation''\<rparr>) s)"
  using assms by (simp add: startConsultation_def Let_def)

lemma startConsultation_not_owner:
  assumes "findAppointmentById s i = Some a" and "a_doctorId a \<noteq> u_id caller"
  shows "startConsultation s caller i = Fail 403 ''Not authorized''"
  using assms by (simp add: startConsultation_def Let_def)

lemma startConsultation_not_paid:
  assumes "findAppointmentById s i = Some a" and "a_doctorId a = u_id caller"
    and "a_status a \<noteq> ''paid''"
  shows "startConsultation s caller i
         = Fail 400 ''Appointment must be paid before starting consultation''"
  using assms by (simp add: startConsultation_def Let_def)

lemma startConsultation_succeeds_iff:
  assumes "findAppointmentById s i = Some a"
  shows "\<not> failed (startConsultation s caller i)
         \<longleftrightarrow> a_doctorId a = u_id caller \<and> a_status a = ''paid''"
  using assms by (simp add: startConsultation_def Let_def)

lemma startConsultation_twice:
  assumes "findAppointmentById s i = Some a" and "a_doctorId a = u_id caller"
    and "a_status a = ''paid''"
  shows "startConsultation (store_after s (startConsultation s caller i)) caller i
         = Fail 400 ''Appointment must be paid before starting consultation''"
proof -
  let ?a' = "a\<lparr>a_status := ''consultation''\<rparr>"
  have after: "store_after s (startConsultation s caller i) = saveAppointment ?a' s"
    by (simp add: startConsultation_done [OF assms])
  have reread: "findAppointmentById (saveAppointment ?a' s) i = Some ?a'"
    by (rule saveAppointment_reread [OF assms(1)])
  show ?thesis
    unfolding after
    by (rule startConsultation_not_paid [OF reread]) (simp_all add: assms(2))
qed

text \<open>
  Claim C4. For an appointment of the store and any caller, \<open>startConsultation\<close> succeeds
  exactly when the caller is the appointment's doctor and the status is \<open>paid\<close>; the
  appointment then reads \<open>consultation\<close>, and the same call made again is refused (400,
  the appointment must be paid). The owning doctor on any other status gets that same 400,
  and a caller who is not the appointment's doctor gets 403.
\<close>

theorem startConsultation_only_from_paid:
  assumes "findAppointmentById s i = Some a"
  shows "(\<not> failed (startConsultation s caller i)
            \<longleftrightarrow> a_doctorId a = u_id caller \<and> a_status a = ''paid'')
         \<and> (a_doctorId a = u_id caller \<and> a_status a = ''paid'' \<longrightarrow>
              findAppointmentById (store_after s (startConsultation s caller i)) i
                = Some (a\<lparr>a_status := ''consultation''\<rparr>)
              \<and> startConsultation (store_after s (startConsultation s caller i)) caller i
                = Fail 400 ''Appointment must be paid before starting consultation'')
         \<and> (a_doctorId a = u_id caller \<and> a_status a \<noteq> ''paid'' \<longrightarrow>
              startConsultation s caller i
                = Fail 400 ''Appointment must be paid before starting consultation'')
         \<and> (a_doctorId a \<noteq> u_id caller \<longrightarrow>
              startConsultation s caller i = Fail 403 ''Not authorized'')"
  using startConsultation_succeeds_iff [OF assms] startConsultation_twice [OF assms]
    startConsultation_not_paid [OF assms] startConsultation_not_owner [OF assms]
    startConsultation_done [OF assms] saveAppointment_reread [OF assms]
  by simp

theorem startConsultation_only_from_paid_witness:
  "findAppointmentById (demo_store ''paid'') 10 = Some (demo_appointment ''paid'')
   \<and> a_doctorId (demo_appointment ''paid'') = u_id demo_doctor
   \<and> a_status (demo_appointment ''paid'') = ''paid''
   \<and> \<not> failed (startConsultation (demo_store ''paid'') demo_doctor 10)
   \<and> store_after (demo_store ''paid'') (startConsultation (demo_store ''paid'') demo_doctor 10)
       = demo_store ''consultation''
   \<and> startConsultation (demo_store ''consultation'') demo_doctor 10
       = Fail 400 ''Appointment must be paid before starting consultation''
   \<and> a_doctorId (demo_appointment ''paid'') \<noteq> u_id demo_patient
   \<and> startConsultation (demo_store ''paid'') demo_patient 10 = Fail 403 ''Not authorized''"
proof -
  have found: "findAppointmentById (demo_store ''paid'') 10 = Some (demo_appointment ''paid'')"
    by (simp add: findAppointmentById_def demo_store_def demo_appointment_def)
  have owner: "a_doctorId (demo_appointment ''paid'') = u_id demo_doctor"
    by (simp add: demo_appointment_def demo_doctor_def)
  have other: "a_doctorId (demo_appointment ''paid'') \<noteq> u_id demo_patient"
    by (simp add: demo_appointment_def demo_patient_def)
  have paid: "a_status (demo_appointment ''paid'') = ''paid''"
    by (simp add: demo_appointment_def)
  have after: "store_after (demo_store ''paid'')
                 (startConsultation (demo_store ''paid'') demo_doctor 10)
               = demo_store ''consultation''"
    unfolding startConsultation_done [OF found owner paid]
    by (simp add: saveAppointment_def demo_store_def demo_appointment_def)
  from startConsultation_only_from_paid [OF found, of demo_doctor]
    startConsultation_only_from_paid [OF found, of demo_patient]
    found owner other paid after
  show ?thesis by auto
qed

section \<open>Facts about the small clinic\<close>

lemma demo_find_appointment:
  "findAppointmentById (demo_store st) 10 = Some (demo_appointment st)"
  "findAppointmentById (demo_store_with st pst) 10 = Some (demo_appointment st)"
  by (simp_all add: findAppointmentById_def demo_store_with_def demo_store_def
      demo_appointment_def)

lemma demo_appointment_fields:
  "a_patientId (demo_appointment st) = u_id demo_patient"
  "a_doctorId (demo_appointment st) = u_id demo_doctor"
  "a_status (demo_appointment st) = st"
  by (simp_all add: demo_appointment_def demo_patient_def demo_doctor_def)

lemma demo_find_payment:
  "findPaymentByAppointment (demo_store st) 10 = None"
  "findPaymentByAppointment (demo_store_with st pst) 10 = Some (demo_payment pst)"
  "p_status (demo_payment pst) = pst"
  "p_id (demo_payment pst) = 20"
  by (simp_all add: findPaymentByAppointment_def demo_store_with_def demo_store_def
      demo_payment_def)

lemma demo_find_doctor:
  "findUserById (demo_store st) 1 = Some demo_doctor"
  "u_role demo_doctor = ''doctor''"
  "findUserById (demo_store st) 99 = None"
  by (simp_all add: findUserById_def demo_store_def demo_doctor_def demo_patient_def)

section \<open>Completing a payment\<close>

lemma findPaymentById_id: "findPaymentById s i = Some p \<Longrightarrow> p_id p = i"
  by (auto simp: findPaymentById_def find_Some_iff)

lemma findPaymentById_save:
  "findPaymentById s (p_id p) = Some q \<Longrightarrow> findPaymentById (savePayment p s) (p_id p) = Some p"
  by (simp add: findPaymentById_def savePayment_def find_replace_first)

lemma appointments_savePayment: "appointments (savePayment p s) = appointments s"
  by (simp add: savePayment_def)

lemma payments_saveAppointment: "payments (saveAppointment a s) = payments s"
  by (simp add: saveAppointment_def)

lemma findAppointmentById_savePayment:
  "findAppointmentById (savePayment p s) j = findAppointmentById s j"
  by (simp add: findAppointmentById_def appointments_savePayment)

lemma findPaymentById_saveAppointment:
  "findPaymentById (saveAppointment a s) j = findPaymentById s j"
  by (simp add: findPaymentById_def payments_saveAppointment)

lemma findPaymentById_findAppointmentByIdAndUpdate:
  "findPaymentById (findAppointmentByIdAndUpdate_status k st s) j = findPaymentById s j"
  by (simp add: findAppointmentByIdAndUpdate_status_def findPaymentById_saveAppointment
      split: option.split)

lemma findAppointmentByIdAndUpdate_reread:
  "findAppointmentById s k = Some a \<Longrightarrow>
   findAppointmentById (findAppointmentByIdAndUpdate_status k st s) k
   = Some (a\<lparr>a_status := st\<rparr>)"
  by (simp add: findAppointmentByIdAndUpdate_status_def saveAppointment_reread)

lemma payment_saves_status:
  "payment_saves (p\<lparr>p_status := st, p_notes := n, p_updatedAt := t\<rparr>) ps = payment_saves p ps"
  by (simp add: payment_saves_def)

lemma updatePaymentStatus_completed:
  assumes "findPaymentById s i = Some p"
    and "p_patientId p = u_id caller \<or> p_doctorId p = u_id caller \<or> u_role caller = ''admin''"
  shows "updatePaymentStatus now s caller i ''completed'' remark
         = (if payment_saves p (payments s)
            then Done 200
                   (p\<lparr>p_status := ''completed'',
                      p_notes := (if truthy remark then remark else p_notes p),
                      p_updatedAt := now\<rparr>)
                   (findAppointmentByIdAndUpdate_status (p_appointmentId p) ''paid''
                      (savePayment
                         (p\<lparr>p_status := ''completed'',
                            p_notes := (if truthy remark then remark else p_notes p),
                            p_updatedAt := now\<rparr>) s))
            else Fail 500 ''Server error'')"
  using assms
  by (simp add: updatePaymentStatus_def payment_statuses_def payment_saves_status Let_def)

lemma updatePaymentStatus_succeeds_iff:
  "\<not> failed (updatePaymentStatus now s caller i ''completed'' remark)
   \<longleftrightarrow> (\<exists>p. findPaymentById s i = Some p
             \<and> (p_patientId p = u_id caller \<or> p_doctorId p = u_id caller
                  \<or> u_role caller = ''admin'')
             \<and> payment_saves p (payments s))"
proof (cases "findPaymentById s i")
  case None
  then show ?thesis
    by (simp add: updatePaymentStatus_def payment_statuses_def)
next
  case (Some p)
  show ?thesis
  proof (cases "p_patientId p = u_id caller \<or> p_doctorId p = u_id caller
                \<or> u_role caller = ''admin''")
    case True
    from updatePaymentStatus_completed [OF Some True, of now remark] Some True
    show ?thesis by simp
  next
    case False
    with Some show ?thesis
      by (simp add: updatePaymentStatus_def payment_statuses_def Let_def)
  qed
qed

lemma updatePaymentStatus_Done:
  assumes "updatePaymentStatus now s caller i ''completed'' remark = Done c p' s'"
  shows "\<exists>p. findPaymentById s i = Some p
             \<and> p' = p\<lparr>p_status := ''completed'',
                       p_notes := (if truthy remark then remark else p_notes p),
                       p_updatedAt := now\<rparr>
             \<and> s' = findAppointmentByIdAndUpdate_status (p_appointmentId p) ''paid''
                      (savePayment p' s)"
proof -
  from assms have ok: "\<not> failed (updatePaymentStatus now s caller i ''completed'' remark)"
    by simp
  then obtain p where p: "findPaymentById s i = Some p"
    "p_patientId p = u_id caller \<or> p_doctorId p = u_id caller \<or> u_role caller = ''admin''"
    "payment_saves p (payments s)"
    unfolding updatePaymentStatus_succeeds_iff by blast
  from updatePaymentStatus_completed [OF p(1,2), of now remark] p(3) assms
  have "p' = p\<lparr>p_status := ''completed'',
                 p_notes := (if truthy remark then remark else p_notes p),
                 p_updatedAt := now\<rparr>
        \<and> s' = findAppointmentByIdAndUpdate_status (p_appointmentId p) ''paid''
                  (savePayment p' s)"
    by simp
  with p(1) show ?thesis by blast
qed

text \<open>
  Claim C2. \<open>updatePaymentStatus\<close> with status \<open>completed\<close> succeeds exactly when the payment
  exists, the caller is its patient, its doctor or an admin, and the save accepts the
  payment. Whenever it succeeds, the payment is the stored one with status \<open>completed\<close> and
  reads so afterwards, and the appointment the payment points to, whatever its status was,
  reads \<open>paid\<close> and is otherwise as before.
\<close>

theorem completed_payment_forces_paid:
  "(\<not> failed (updatePaymentStatus now s caller i ''completed'' remark)
      \<longleftrightarrow> (\<exists>p. findPaymentById s i = Some p
                \<and> (p_patientId p = u_id caller \<or> p_doctorId p = u_id caller
                     \<or> u_role caller = ''admin'')
                \<and> payment_saves p (payments s)))
   \<and> (\<forall>c p' s'. updatePaymentStatus now s caller i ''completed'' remark = Done c p' s' \<longrightarrow>
         (\<exists>p. findPaymentById s i = Some p
               \<and> p' = p\<lparr>p_status := ''completed'',
                         p_notes := (if truthy remark then remark else p_notes p),
                         p_updatedAt := now\<rparr>)
         \<and> p_status p' = ''completed''
         \<and> findPaymentById s' i = Some p'
         \<and> (\<forall>a. findAppointmentById s (p_appointmentId p') = Some a \<longrightarrow>
               findAppointmentById s' (p_appointmentId p')
                 = Some (a\<lparr>a_status := ''paid''\<rparr>)))"
proof (intro conjI allI impI)
  show "\<not> failed (updatePaymentStatus now s caller i ''completed'' remark)
        \<longleftrightarrow> (\<exists>p. findPaymentById s i = Some p
                  \<and> (p_patientId p = u_id caller \<or> p_doctorId p = u_id caller
                       \<or> u_role caller = ''admin'')
                  \<and> payment_saves p (payments s))"
    by (rule updatePaymentStatus_succeeds_iff)
next
  fix c s' and p' :: payment
  assume run: "updatePaymentStatus now s caller i ''completed'' remark = Done c p' s'"
  from updatePaymentStatus_Done [OF run] obtain p where p: "findPaymentById s i = Some p"
    and p': "p' = p\<lparr>p_status := ''completed'',
                     p_notes := (if truthy remark then remark else p_notes p),
                     p_updatedAt := now\<rparr>"
    and s': "s' = findAppointmentByIdAndUpdate_status (p_appointmentId p) ''paid''
                    (savePayment p' s)"
    by blast
  from p p' show "\<exists>p. findPaymentById s i = Some p
                      \<and> p' = p\<lparr>p_status := ''completed'',
                                p_notes := (if truthy remark then remark else p_notes p),
                                p_updatedAt := now\<rparr>"
    by blast
  from p' show "p_status p' = ''completed''" by simp
  have id: "p_id p' = i"
    using p p' by (simp add: findPaymentById_id)
  have "findPaymentById (savePayment p' s) (p_id p') = Some p'"
    by (rule findPaymentById_save [of s p' p]) (simp add: id p)
  then show "findPaymentById s' i = Some p'"
    by (simp add: s' findPaymentById_findAppointmentByIdAndUpdate id)
  fix a
  assume a: "findAppointmentById s (p_appointmentId p') = Some a"
  have k: "p_appointmentId p' = p_appointmentId p"
    using p' by simp
  have "findAppointmentById (savePayment p' s) (p_appointmentId p) = Some a"
    using a by (simp add: findAppointmentById_savePayment k)
  then have "findAppointmentById s' (p_appointmentId p) = Some (a\<lparr>a_status := ''paid''\<rparr>)"
    unfolding s' by (rule findAppointmentByIdAndUpdate_reread)
  then show "findAppointmentById s' (p_appointmentId p') = Some (a\<lparr>a_status := ''paid''\<rparr>)"
    by (simp add: k)
qed

theorem completed_payment_forces_paid_witness:
  "findPaymentById (demo_store_with ''completed'' ''failed'') 20 = Some (demo_payment ''failed'')
   \<and> p_patientId (demo_payment ''failed'') = u_id demo_patient
   \<and> payment_saves (demo_payment ''failed'')
        (payments (demo_store_with ''completed'' ''failed''))
   \<and> \<not> failed (updatePaymentStatus 7 (demo_store_with ''completed'' ''failed'')
                  demo_patient 20 ''completed'' None)
   \<and> findAppointmentById (demo_store_with ''completed'' ''failed'') 10
       = Some (demo_appointment ''completed'')
   \<and> findPaymentById
        (store_after (demo_store_with ''completed'' ''failed'')
           (updatePaymentStatus 7 (demo_store_with ''completed'' ''failed'')
              demo_patient 20 ''completed'' None)) 20
       = Some ((demo_payment ''failed'')\<lparr>p_status := ''completed'', p_updatedAt := 7\<rparr>)
   \<and> findAppointmentById
        (store_after (demo_store_with ''completed'' ''failed'')
           (updatePaymentStatus 7 (demo_store_with ''completed'' ''failed'')
              demo_patient 20 ''completed'' None)) 10
       = Some (demo_appointment ''paid'')"
proof -
  let ?s = "demo_store_with ''completed'' ''failed''"
  let ?run = "updatePaymentStatus 7 ?s demo_patient 20 ''completed'' None"
  note claim = completed_payment_forces_paid [of 7 ?s demo_patient 20 None]
  have pay: "findPaymentById ?s 20 = Some (demo_payment ''failed'')"
    by (simp add: findPaymentById_def demo_store_with_def demo_payment_def)
  have who: "p_patientId (demo_payment ''failed'') = u_id demo_patient"
    by (simp add: demo_payment_def demo_patient_def)
  have saves: "payment_saves (demo_payment ''failed'') (payments ?s)"
    by (simp add: payment_saves_def payment_methods_def demo_store_with_def demo_payment_def)
  have app: "findAppointmentById ?s 10 = Some (demo_appointment ''completed'')"
    by (rule demo_find_appointment(2))
  from pay who saves
  have "\<exists>p. findPaymentById ?s 20 = Some p
            \<and> (p_patientId p = u_id demo_patient \<or> p_doctorId p = u_id demo_patient
                 \<or> u_role demo_patient = ''admin'')
            \<and> payment_saves p (payments ?s)"
    by blast
  then have ok: "\<not> failed ?run"
    by (rule iffD2 [OF conjunct1 [OF claim]])
  then obtain c p' s' where run: "?run = Done c p' s'"
    by (cases ?run) auto
  note after = mp [OF spec [OF spec [OF spec [OF conjunct2 [OF claim]]]] run]
  from conjunct1 [OF after] pay
  have p': "p' = (demo_payment ''failed'')\<lparr>p_status := ''completed'', p_updatedAt := 7\<rparr>"
    by (simp add: demo_payment_def)
  then have k: "p_appointmentId p' = 10"
    by (simp add: demo_payment_def)
  have reread: "findPaymentById (store_after ?s ?run) 20
                = Some ((demo_payment ''failed'')\<lparr>p_status := ''completed'', p_updatedAt := 7\<rparr>)"
    using conjunct1 [OF conjunct2 [OF conjunct2 [OF after]]] by (simp add: run p')
  have "findAppointmentById s' (p_appointmentId p')
        = Some ((demo_appointment ''completed'')\<lparr>a_status := ''paid''\<rparr>)"
    by (rule mp [OF spec [OF conjunct2 [OF conjunct2 [OF conjunct2 [OF after]]]]])
      (simp add: k app)
  then have paid: "findAppointmentById (store_after ?s ?run) 10 = Some (demo_appointment ''paid'')"
    by (simp add: run k demo_appointment_def)
  show ?thesis
    by (intro conjI) (rule pay who saves ok app reread paid)+
qed

section \<open>Creating a payment\<close>

lemma fold_max_ge: "b \<le> fold max ids (b::nat)"
proof (induction ids arbitrary: b)
  case Nil
  show ?case by simp
next
  case (Cons x xs)
  have "b \<le> max x b" by simp
  also have "max x b \<le> fold max xs (max x b)" by (rule Cons.IH)
  finally show ?case by simp
qed

lemma fold_max_upper: "x \<in> set ids \<Longrightarrow> x \<le> fold max ids (b::nat)"
proof (induction ids arbitrary: b)
  case Nil
  then show ?case by simp
next
  case (Cons y ys)
  show ?case
  proof (cases "x = y")
    case True
    have "x \<le> max y b" using True by simp
    also have "max y b \<le> fold max ys (max y b)" by (rule fold_max_ge)
    finally show ?thesis by simp
  next
    case False
    with Cons.prems have "x \<in> set ys" by simp
    then have "x \<le> fold max ys (max y b)" by (rule Cons.IH)
    then show ?thesis by simp
  qed
qed

lemma new_ObjectId_fresh: "new_ObjectId ids \<notin> set ids"
proof
  assume "new_ObjectId ids \<in> set ids"
  then have "new_ObjectId ids \<le> fold max ids 0" by (rule fold_max_upper)
  then show False by (simp add: new_ObjectId_def)
qed

lemma findUserById_id: "findUserById s i = Some u \<Longrightarrow> u_id u = i"
  by (auto simp: findUserById_def find_Some_iff)

lemma payment_saves_unused:
  assumes "p_paymentMethod p \<in> set payment_methods"
    and "p_transactionId p \<notin> p_transactionId ` set ps"
  shows "payment_saves p ps"
  using assms by (force simp: payment_saves_def list_all_iff image_iff)

lemma createPayment_not_confirmed:
  assumes "findAppointmentById s k = Some a" and "a_patientId a = u_id caller"
    and "a_status a \<noteq> ''confirmed''"
  shows "createPayment ts rnd now s caller k paymentMethod paymentDetails
         = Fail 400 ''Appointment must be confirmed before payment''"
  using assms by (simp add: createPayment_def Let_def)

lemma createPayment_not_confirmed_fails:
  assumes "findAppointmentById s k = Some a" and "a_status a \<noteq> ''confirmed''"
  shows "failed (createPayment ts rnd now s caller k paymentMethod paymentDetails)"
  using assms by (simp add: createPayment_def Let_def)

lemma createPayment_not_owner:
  assumes "findAppointmentById s k = Some a" and "a_patientId a \<noteq> u_id other"
  shows "createPayment ts rnd now s other k paymentMethod paymentDetails
         = Fail 403 ''Not authorized to pay for this appointment''"
  using assms by (simp add: createPayment_def Let_def)

lemma createPayment_completed:
  assumes "findAppointmentById s k = Some a" and "a_patientId a = u_id caller"
    and "a_status a = ''confirmed''"
    and "findPaymentByAppointment s k = Some q" and "p_status q = ''completed''"
  shows "createPayment ts rnd now s caller k paymentMethod paymentDetails
         = Fail 400 ''Payment already completed for this appointment''"
  using assms by (simp add: createPayment_def Let_def)

lemma createPayment_pending:
  assumes "findAppointmentById s k = Some a" and "a_patientId a = u_id caller"
    and "a_status a = ''confirmed''"
    and "findPaymentByAppointment s k = Some q" and "p_status q = ''pending''"
  shows "createPayment ts rnd now s caller k paymentMethod paymentDetails
         = Fail 400 ''Payment already exists for this appointment''"
  using assms by (simp add: createPayment_def Let_def)

lemma generateTransactionId_injective:
  assumes "length rnd' = length rnd"
  shows "generateTransactionId ts' rnd' = generateTransactionId ts rnd
         \<longleftrightarrow> ts' = ts \<and> rnd' = rnd"
  using assms by (simp add: generateTransactionId_def)

lemma payment_saves_new:
  assumes "p_id p \<notin> p_id ` set ps"
  shows "payment_saves p ps
         \<longleftrightarrow> p_paymentMethod p \<in> set payment_methods
             \<and> p_transactionId p \<notin> p_transactionId ` set ps"
  using assms by (force simp: payment_saves_def list_all_iff image_iff)

lemma payment_saves_iff:
  "payment_saves p ps
   \<longleftrightarrow> p_paymentMethod p \<in> set payment_methods
       \<and> (\<forall>x \<in> set ps. p_id x = p_id p \<or> p_transactionId x \<noteq> p_transactionId p)"
  by (simp add: payment_saves_def list_all_iff)

lemma createPayment_new_eq:
  "createPayment_new ts rnd now s patientId a k paymentMethod paymentDetails
   = (if paymentMethod \<in> set payment_methods \<and> findUserById s (a_doctorId a) \<noteq> None
         \<and> ''TXN'' @ ts @ rnd \<notin> p_transactionId ` set (payments s)
      then Done 201
             \<lparr>p_id = new_ObjectId (map p_id (payments s)),
              p_appointmentId = k, p_patientId = patientId,
              p_doctorId = a_doctorId a, p_amount = 500, p_currency = ''ETB'',
              p_paymentMethod = paymentMethod, p_transactionId = ''TXN'' @ ts @ rnd,
              p_status = ''pending'', p_paymentDetails = paymentDetails,
              p_notes = None, p_createdAt = now, p_updatedAt = now\<rparr>
             (s\<lparr>payments := payments s @
                [\<lparr>p_id = new_ObjectId (map p_id (payments s)),
                  p_appointmentId = k, p_patientId = patientId,
                  p_doctorId = a_doctorId a, p_amount = 500, p_currency = ''ETB'',
                  p_paymentMethod = paymentMethod, p_transactionId = ''TXN'' @ ts @ rnd,
                  p_status = ''pending'', p_paymentDetails = paymentDetails,
                  p_notes = None, p_createdAt = now, p_updatedAt = now\<rparr>]\<rparr>)
      else Fail 500 ''Server error'')"
proof (cases "findUserById s (a_doctorId a)")
  case None
  then show ?thesis by (simp add: createPayment_new_def)
next
  case (Some d)
  have d: "u_id d = a_doctorId a"
    using Some by (rule findUserById_id)
  have fresh: "new_ObjectId (map p_id (payments s)) \<notin> p_id ` set (payments s)"
    using new_ObjectId_fresh [of "map p_id (payments s)"] by simp
  show ?thesis
    using Some fresh
    by (simp add: createPayment_new_def Let_def d payment_saves_new generateTransactionId_def)
qed

lemma createPayment_none:
  assumes "findAppointmentById s k = Some a" and "a_patientId a = u_id caller"
    and "a_status a = ''confirmed''"
    and "findPaymentByAppointment s k = None"
  shows "createPayment ts rnd now s caller k paymentMethod paymentDetails
         = createPayment_new ts rnd now s (u_id caller) a k paymentMethod paymentDetails"
  using assms by (simp add: createPayment_def Let_def)

lemma createPayment_revive:
  assumes "findAppointmentById s k = Some a" and "a_patientId a = u_id caller"
    and "a_status a = ''confirmed''"
    and "findPaymentByAppointment s k = Some q"
    and "p_status q = ''failed'' \<or> p_status q = ''cancelled''"
  shows "createPayment ts rnd now s caller k paymentMethod paymentDetails
         = (if paymentMethod \<in> set payment_methods
               \<and> (\<forall>x \<in> set (payments s). p_id x = p_id q
                                          \<or> p_transactionId x \<noteq> ''TXN'' @ ts @ rnd)
            then Done 200
                   (q\<lparr>p_paymentMethod := paymentMethod, p_paymentDetails := paymentDetails,
                      p_transactionId := ''TXN'' @ ts @ rnd,
                      p_status := ''pending'', p_notes := Some [], p_updatedAt := now\<rparr>)
                   (savePayment
                      (q\<lparr>p_paymentMethod := paymentMethod, p_paymentDetails := paymentDetails,
                         p_transactionId := ''TXN'' @ ts @ rnd,
                         p_status := ''pending'', p_notes := Some [], p_updatedAt := now\<rparr>) s)
            else Fail 500 ''Server error'')"
proof -
  from assms(5) have st: "p_status q \<noteq> ''completed''" "p_status q \<noteq> ''pending''"
    by auto
  show ?thesis
    using assms st
    by (simp add: createPayment_def Let_def payment_saves_iff generateTransactionId_def)
qed

lemma length_replace_first: "length (replace_first P y xs) = length xs"
  by (induction xs) auto

lemma set_replace_first: "set (replace_first P y xs) \<subseteq> insert y (set xs)"
  by (induction xs) auto

lemma findPaymentByAppointment_mem:
  "findPaymentByAppointment s k = Some q \<Longrightarrow> findPaymentById s (p_id q) \<noteq> None"
  by (auto simp: findPaymentByAppointment_def findPaymentById_def find_Some_iff find_None_iff
      in_set_conv_nth)

lemma saved_transaction_unique:
  assumes "payment_saves p ps" and "set qs \<subseteq> insert p (set ps)" and "x \<in> set qs"
  shows "p_id x = p_id p \<or> p_transactionId x \<noteq> p_transactionId p"
  using assms by (auto simp: payment_saves_iff)

lemma createPayment_new_Done:
  assumes "createPayment_new ts rnd now s patientId a k paymentMethod paymentDetails
           = Done c p s'"
  shows "p_status p = ''pending'' \<and> p_transactionId p = ''TXN'' @ ts @ rnd
         \<and> (\<forall>x \<in> set (payments s'). p_id x = p_id p
                                     \<or> p_transactionId x \<noteq> p_transactionId p)"
proof -
  from assms have saves: "payment_saves p (payments s)"
    and s': "s' = s\<lparr>payments := payments s @ [p]\<rparr>"
    and st: "p_status p = ''pending''"
    and tx: "p_transactionId p = generateTransactionId ts rnd"
    by (auto simp: createPayment_new_def Let_def split: option.splits if_splits)
  have sub: "set (payments s') \<subseteq> insert p (set (payments s))"
    by (auto simp: s')
  from saves sub
  have "\<forall>x \<in> set (payments s'). p_id x = p_id p \<or> p_transactionId x \<noteq> p_transactionId p"
    by (blast dest: saved_transaction_unique)
  with st tx show ?thesis
    by (simp add: generateTransactionId_def)
qed

lemma createPayment_Done:
  assumes "createPayment ts rnd now s caller k paymentMethod paymentDetails = Done c p s'"
  shows "p_status p = ''pending'' \<and> p_transactionId p = ''TXN'' @ ts @ rnd
         \<and> (\<forall>x \<in> set (payments s'). p_id x = p_id p
                                     \<or> p_transactionId x \<noteq> p_transactionId p)"
proof -
  let ?q' = "\<lambda>q. q\<lparr>p_paymentMethod := paymentMethod, p_paymentDetails := paymentDetails,
                     p_transactionId := generateTransactionId ts rnd,
                     p_status := ''pending'', p_notes := Some [], p_updatedAt := now\<rparr>"
  from assms
  have "(\<exists>a. createPayment_new ts rnd now s (u_id caller) a k paymentMethod paymentDetails
              = Done c p s')
        \<or> (\<exists>q. payment_saves (?q' q) (payments s) \<and> p = ?q' q \<and> s' = savePayment (?q' q) s)"
    by (auto simp: createPayment_def Let_def split: option.splits if_splits)
  then show ?thesis
  proof (elim disjE exE conjE)
    fix a
    assume "createPayment_new ts rnd now s (u_id caller) a k paymentMethod paymentDetails
            = Done c p s'"
    then show ?thesis by (rule createPayment_new_Done)
  next
    fix q
    assume saves: "payment_saves (?q' q) (payments s)" and p: "p = ?q' q"
      and s': "s' = savePayment (?q' q) s"
    have sub: "set (payments s') \<subseteq> insert p (set (payments s))"
      by (simp add: s' p savePayment_def set_replace_first)
    from saves sub
    have "\<forall>x \<in> set (payments s'). p_id x = p_id p
                                  \<or> p_transactionId x \<noteq> p_transactionId p"
      unfolding p [symmetric] by (blast dest: saved_transaction_unique)
    then show ?thesis
      by (simp add: p generateTransactionId_def)
  qed
qed

text \<open>
  Claim C3 as stated: every call by the owning patient on a \<open>confirmed\<close> appointment that
  has no payment creates one. The save checks the document against the payment schema
  first and the \<open>catch\<close> answers 500 when it is rejected: a payment method outside the
  schema's enumeration, a generated transaction id that another payment already holds
  (unique index), or a doctor whose user document is gone (the populated \<open>doctorId\<close> is
  null) each leave the collection as it was.
\<close>

theorem createPayment_rejected_save_counterexample:
  "findAppointmentById (demo_store ''confirmed'') 10 = Some (demo_appointment ''confirmed'')
   \<and> a_patientId (demo_appointment ''confirmed'') = u_id demo_patient
   \<and> a_status (demo_appointment ''confirmed'') = ''confirmed''
   \<and> findPaymentByAppointment (demo_store ''confirmed'') 10 = None
   \<and> createPayment ''1700000000001'' ''XYZ789'' 1700000000001 (demo_store ''confirmed'')
        demo_patient 10 ''paypal'' demo_details
       = Fail 500 ''Server error''
   \<and> findPaymentByAppointment
        ((demo_store ''confirmed'')\<lparr>payments := [demo_other_payment]\<rparr>) 10 = None
   \<and> createPayment ''1700000000001'' ''XYZ789'' 1700000000001
        ((demo_store ''confirmed'')\<lparr>payments := [demo_other_payment]\<rparr>)
        demo_patient 10 ''telebirr'' demo_details
       = Fail 500 ''Server error''
   \<and> createPayment ''1700000000001'' ''XYZ789'' 1700000000001
        ((demo_store ''confirmed'')\<lparr>users := [demo_patient]\<rparr>)
        demo_patient 10 ''telebirr'' demo_details
       = Fail 500 ''Server error''"
  by (simp add: createPayment_def createPayment_new_def payment_saves_def payment_methods_def
      generateTransactionId_def findAppointmentById_def findPaymentByAppointment_def
      findUserById_def demo_store_def demo_appointment_def demo_patient_def demo_doctor_def
      demo_other_payment_def demo_payment_def new_ObjectId_def Let_def)

text \<open>
  Claim C3 as amended. For a call by the appointment's patient: an appointment that is not
  \<open>confirmed\<close> is refused with 400 (it must be confirmed before payment), and no caller
  gets a payment for it (a caller who is not the patient is refused with 403). On a
  \<open>confirmed\<close> appointment the first payment of the appointment decides: \<open>completed\<close> is
  refused as already paid, \<open>pending\<close> as already existing (both 400). With none, a payment
  is appended with status \<open>pending\<close>, amount 500, the transaction id \<open>TXN\<close> + clock digits +
  random characters and an id no payment had, exactly when the payment method is one of the
  schema's enumeration, the appointment's doctor is still among the users and no payment
  holds that transaction id; otherwise the answer is 500. With a \<open>failed\<close> or \<open>cancelled\<close>
  one, that same document (same id, same place, no document added) gets the new payment
  method, details and transaction id and status \<open>pending\<close>, exactly when the method is one
  of the enumeration and no other payment holds that transaction id; otherwise the answer
  is 500. Whenever a call succeeds, the payment it returns is \<open>pending\<close> and its transaction
  id is held by no other payment of the store; and calls that differ in the clock digits or
  in the random characters (of equal length) generate different transaction ids.
\<close>

theorem createPayment_follows_existing_payment:
  assumes "findAppointmentById s k = Some a" and "a_patientId a = u_id caller"
  shows "(a_status a \<noteq> ''confirmed'' \<longrightarrow>
            createPayment ts rnd now s caller k paymentMethod paymentDetails
              = Fail 400 ''Appointment must be confirmed before payment''
            \<and> (\<forall>other. failed (createPayment ts rnd now s other k paymentMethod paymentDetails)
                  \<and> (a_patientId a \<noteq> u_id other \<longrightarrow>
                       createPayment ts rnd now s other k paymentMethod paymentDetails
                         = Fail 403 ''Not authorized to pay for this appointment'')))
         \<and> (a_status a = ''confirmed'' \<longrightarrow>
              (\<forall>q::payment. findPaymentByAppointment s k = Some q \<and> p_status q = ''completed'' \<longrightarrow>
                 createPayment ts rnd now s caller k paymentMethod paymentDetails
                   = Fail 400 ''Payment already completed for this appointment'')
              \<and> (\<forall>q::payment. findPaymentByAppointment s k = Some q \<and> p_status q = ''pending'' \<longrightarrow>
                 createPayment ts rnd now s caller k paymentMethod paymentDetails
                   = Fail 400 ''Payment already exists for this appointment'')
              \<and> (findPaymentByAppointment s k = None \<longrightarrow>
                   (if paymentMethod \<in> set payment_methods
                       \<and> findUserById s (a_doctorId a) \<noteq> None
                       \<and> ''TXN'' @ ts @ rnd \<notin> p_transactionId ` set (payments s)
                    then \<exists>p. createPayment ts rnd now s caller k paymentMethod paymentDetails
                               = Done 201 p (s\<lparr>payments := payments s @ [p]\<rparr>)
                             \<and> p_status p = ''pending'' \<and> p_amount p = 500
                             \<and> p_transactionId p = ''TXN'' @ ts @ rnd
                             \<and> p_id p \<notin> p_id ` set (payments s)
                             \<and> p_appointmentId p = k \<and> p_patientId p = u_id caller
                             \<and> p_doctorId p = a_doctorId a
                             \<and> p_paymentMethod p = paymentMethod
                             \<and> p_paymentDetails p = paymentDetails
                    else createPayment ts rnd now s caller k paymentMethod paymentDetails
                           = Fail 500 ''Server error''))
              \<and> (\<forall>q::payment. findPaymentByAppointment s k = Some q
                      \<and> (p_status q = ''failed'' \<or> p_status q = ''cancelled'') \<longrightarrow>
                   (if paymentMethod \<in> set payment_methods
                       \<and> (\<forall>x \<in> set (payments s). p_id x = p_id q
                                                  \<or> p_transactionId x \<noteq> ''TXN'' @ ts @ rnd)
                    then createPayment ts rnd now s caller k paymentMethod paymentDetails
                           = Done 200
                               (q\<lparr>p_paymentMethod := paymentMethod,
                                  p_paymentDetails := paymentDetails,
                                  p_transactionId := ''TXN'' @ ts @ rnd,
                                  p_status := ''pending'', p_notes := Some [],
                                  p_updatedAt := now\<rparr>)
                               (savePayment
                                  (q\<lparr>p_paymentMethod := paymentMethod,
                                     p_paymentDetails := paymentDetails,
                                     p_transactionId := ''TXN'' @ ts @ rnd,
                                     p_status := ''pending'', p_notes := Some [],
                                     p_updatedAt := now\<rparr>) s)
                         \<and> findPaymentById
                              (store_after s
                                 (createPayment ts rnd now s caller k paymentMethod paymentDetails))
                              (p_id q)
                            = Some (q\<lparr>p_paymentMethod := paymentMethod,
                                      p_paymentDetails := paymentDetails,
                                      p_transactionId := ''TXN'' @ ts @ rnd,
                                      p_status := ''pending'', p_notes := Some [],
                                      p_updatedAt := now\<rparr>)
                         \<and> length (payments
                              (store_after s
                                 (createPayment ts rnd now s caller k paymentMethod paymentDetails)))
                            = length (payments s)
                    else createPayment ts rnd now s caller k paymentMethod paymentDetails
                           = Fail 500 ''Server error'')))
         \<and> (\<forall>c p s'. createPayment ts rnd now s caller k paymentMethod paymentDetails
                        = Done c p s' \<longrightarrow>
               p_status p = ''pending'' \<and> p_transactionId p = ''TXN'' @ ts @ rnd
               \<and> (\<forall>x \<in> set (payments s'). p_id x = p_id p
                                           \<or> p_transactionId x \<noteq> p_transactionId p))
         \<and> (\<forall>ts' rnd'. length rnd' = length rnd \<longrightarrow>
               (generateTransactionId ts' rnd' = generateTransactionId ts rnd
                \<longleftrightarrow> ts' = ts \<and> rnd' = rnd))"
proof (intro conjI impI allI)
  assume "a_status a \<noteq> ''confirmed''"
  then show "createPayment ts rnd now s caller k paymentMethod paymentDetails
             = Fail 400 ''Appointment must be confirmed before payment''"
    by (rule createPayment_not_confirmed [OF assms])
next
  fix other
  assume "a_status a \<noteq> ''confirmed''"
  then show "failed (createPayment ts rnd now s other k paymentMethod paymentDetails)"
    by (rule createPayment_not_confirmed_fails [OF assms(1)])
next
  fix other :: user
  assume "a_patientId a \<noteq> u_id other"
  then show "createPayment ts rnd now s other k paymentMethod paymentDetails
             = Fail 403 ''Not authorized to pay for this appointment''"
    by (rule createPayment_not_owner [OF assms(1)])
next
  fix q
  assume "a_status a = ''confirmed''"
    and "findPaymentByAppointment s k = Some q \<and> p_status q = ''completed''"
  then show "createPayment ts rnd now s caller k paymentMethod paymentDetails
             = Fail 400 ''Payment already completed for this appointment''"
    using createPayment_completed [OF assms] by blast
next
  fix q
  assume "a_status a = ''confirmed''"
    and "findPaymentByAppointment s k = Some q \<and> p_status q = ''pending''"
  then show "createPayment ts rnd now s caller k paymentMethod paymentDetails
             = Fail 400 ''Payment already exists for this appointment''"
    using createPayment_pending [OF assms] by blast
next
  assume c: "a_status a = ''confirmed''" and n: "findPaymentByAppointment s k = None"
  have fresh: "new_ObjectId (map p_id (payments s)) \<notin> p_id ` set (payments s)"
    using new_ObjectId_fresh [of "map p_id (payments s)"] by simp
  show "if paymentMethod \<in> set payment_methods
           \<and> findUserById s (a_doctorId a) \<noteq> None
           \<and> ''TXN'' @ ts @ rnd \<notin> p_transactionId ` set (payments s)
        then \<exists>p. createPayment ts rnd now s caller k paymentMethod paymentDetails
                   = Done 201 p (s\<lparr>payments := payments s @ [p]\<rparr>)
                 \<and> p_status p = ''pending'' \<and> p_amount p = 500
                 \<and> p_transactionId p = ''TXN'' @ ts @ rnd
                 \<and> p_id p \<notin> p_id ` set (payments s)
                 \<and> p_appointmentId p = k \<and> p_patientId p = u_id caller
                 \<and> p_doctorId p = a_doctorId a
                 \<and> p_paymentMethod p = paymentMethod
                 \<and> p_paymentDetails p = paymentDetails
        else createPayment ts rnd now s caller k paymentMethod paymentDetails
               = Fail 500 ''Server error''"
    unfolding createPayment_none [OF assms c n] createPayment_new_eq
    using fresh by simp
next
  fix q :: payment
  let ?q' = "q\<lparr>p_paymentMethod := paymentMethod, p_paymentDetails := paymentDetails,
                p_transactionId := ''TXN'' @ ts @ rnd,
                p_status := ''pending'', p_notes := Some [], p_updatedAt := now\<rparr>"
  let ?run = "createPayment ts rnd now s caller k paymentMethod paymentDetails"
  let ?ok = "paymentMethod \<in> set payment_methods
             \<and> (\<forall>x \<in> set (payments s). p_id x = p_id q
                                        \<or> p_transactionId x \<noteq> ''TXN'' @ ts @ rnd)"
  assume c: "a_status a = ''confirmed''"
    and e: "findPaymentByAppointment s k = Some q
            \<and> (p_status q = ''failed'' \<or> p_status q = ''cancelled'')"
  note run = createPayment_revive [OF assms c conjunct1 [OF e] conjunct2 [OF e],
      of ts rnd now paymentMethod paymentDetails]
  show "if ?ok
        then ?run = Done 200 ?q' (savePayment ?q' s)
             \<and> findPaymentById (store_after s ?run) (p_id q) = Some ?q'
             \<and> length (payments (store_after s ?run)) = length (payments s)
        else ?run = Fail 500 ''Server error''"
  proof (cases ?ok)
    case False
    have r: "?run = Fail 500 ''Server error''"
      using run by (simp only: if_not_P [OF False])
    show ?thesis
      using r by (simp only: if_not_P [OF False])
  next
    case True
    have ran: "?run = Done 200 ?q' (savePayment ?q' s)"
      using run by (simp only: if_P [OF True])
    obtain q0 where q0: "findPaymentById s (p_id ?q') = Some q0"
      using findPaymentByAppointment_mem [OF conjunct1 [OF e]] by auto
    have "findPaymentById (savePayment ?q' s) (p_id ?q') = Some ?q'"
      using q0 by (rule findPaymentById_save)
    then have reread: "findPaymentById (store_after s ?run) (p_id q) = Some ?q'"
      by (simp add: ran)
    have len: "length (payments (store_after s ?run)) = length (payments s)"
      by (simp add: ran savePayment_def length_replace_first)
    show ?thesis
      by (simp only: if_P [OF True]) (intro conjI ran reread len)
  qed
next
  fix c s' and p :: payment
  assume run: "createPayment ts rnd now s caller k paymentMethod paymentDetails = Done c p s'"
  note facts = createPayment_Done [OF run]
  from facts show "p_status p = ''pending''" by simp
  from facts show "p_transactionId p = ''TXN'' @ ts @ rnd" by simp
  from facts show "\<forall>x \<in> set (payments s'). p_id x = p_id p
                                           \<or> p_transactionId x \<noteq> p_transactionId p"
    by blast
next
  fix ts' rnd' :: string
  assume "length rnd' = length rnd"
  then show "generateTransactionId ts' rnd' = generateTransactionId ts rnd
             \<longleftrightarrow> ts' = ts \<and> rnd' = rnd"
    by (rule generateTransactionId_injective)
qed

theorem createPayment_follows_existing_payment_witness:
  "createPayment ''1700000000001'' ''XYZ789'' 1700000000001 (demo_store ''pending'')
     demo_patient 10 ''telebirr'' demo_details
     = Fail 400 ''Appointment must be confirmed before payment''
   \<and> createPayment ''1700000000001'' ''XYZ789'' 1700000000001
       (demo_store_with ''confirmed'' ''completed'') demo_patient 10 ''telebirr'' demo_details
     = Fail 400 ''Payment already completed for this appointment''
   \<and> createPayment ''1700000000001'' ''XYZ789'' 1700000000001
       (demo_store_with ''confirmed'' ''pending'') demo_patient 10 ''telebirr'' demo_details
     = Fail 400 ''Payment already exists for this appointment''
   \<and> (\<exists>p. createPayment ''1700000000001'' ''XYZ789'' 1700000000001
              (demo_store ''confirmed'') demo_patient 10 ''telebirr'' demo_details
            = Done 201 p ((demo_store ''confirmed'')\<lparr>payments := [p]\<rparr>)
          \<and> p_status p = ''pending'' \<and> p_amount p = 500
          \<and> p_transactionId p = ''TXN1700000000001XYZ789'')
   \<and> createPayment ''1700000000001'' ''XYZ789'' 1700000000001 (demo_store ''confirmed'')
       demo_patient 10 ''paypal'' demo_details
     = Fail 500 ''Server error''
   \<and> map_option p_status
        (findPaymentById
           (store_after (demo_store_with ''confirmed'' ''failed'')
              (createPayment ''1700000000001'' ''XYZ789'' 1700000000001
                 (demo_store_with ''confirmed'' ''failed'') demo_patient 10 ''telebirr''
                 demo_details)) 20)
     = Some ''pending''
   \<and> generateTransactionId ''1700000000002'' ''XYZ789''
       \<noteq> generateTransactionId ''1700000000001'' ''XYZ789''"
proof -
  note pending =
    createPayment_follows_existing_payment
      [where ts = "''1700000000001''" and rnd = "''XYZ789''" and now = 1700000000001
         and paymentMethod = "''telebirr''" and paymentDetails = demo_details,
       OF demo_find_appointment(1) [of "''pending''"]
          demo_appointment_fields(1) [of "''pending''"]]
  note fresh =
    createPayment_follows_existing_payment
      [where ts = "''1700000000001''" and rnd = "''XYZ789''" and now = 1700000000001
         and paymentMethod = "''telebirr''" and paymentDetails = demo_details,
       OF demo_find_appointment(1) [of "''confirmed''"]
          demo_appointment_fields(1) [of "''confirmed''"]]
  note other =
    createPayment_follows_existing_payment
      [where ts = "''1700000000001''" and rnd = "''XYZ789''" and now = 1700000000001
         and paymentMethod = "''paypal''" and paymentDetails = demo_details,
       OF demo_find_appointment(1) [of "''confirmed''"]
          demo_appointment_fields(1) [of "''confirmed''"]]
  note completed =
    createPayment_follows_existing_payment
      [where ts = "''1700000000001''" and rnd = "''XYZ789''" and now = 1700000000001
         and paymentMethod = "''telebirr''" and paymentDetails = demo_details,
       OF demo_find_appointment(2) [of "''confirmed''" "''completed''"]
          demo_appointment_fields(1) [of "''confirmed''"]]
  note waiting =
    createPayment_follows_existing_payment
      [where ts = "''1700000000001''" and rnd = "''XYZ789''" and now = 1700000000001
         and paymentMethod = "''telebirr''" and paymentDetails = demo_details,
       OF demo_find_appointment(2) [of "''confirmed''" "''pending''"]
          demo_appointment_fields(1) [of "''confirmed''"]]
  note revived =
    createPayment_follows_existing_payment
      [where ts = "''1700000000001''" and rnd = "''XYZ789''" and now = 1700000000001
         and paymentMethod = "''telebirr''" and paymentDetails = demo_details,
       OF demo_find_appointment(2) [of "''confirmed''" "''failed''"]
          demo_appointment_fields(1) [of "''confirmed''"]]
  have unconfirmed: "a_status (demo_appointment ''pending'') \<noteq> ''confirmed''"
    and confirmed: "a_status (demo_appointment ''confirmed'') = ''confirmed''"
    by (simp_all add: demo_appointment_def)
  note c1 = conjunct1 [OF mp [OF conjunct1 [OF pending] unconfirmed]]
  have is_completed: "findPaymentByAppointment (demo_store_with ''confirmed'' ''completed'') 10
                        = Some (demo_payment ''completed'')
                      \<and> p_status (demo_payment ''completed'') = ''completed''"
    and is_pending: "findPaymentByAppointment (demo_store_with ''confirmed'' ''pending'') 10
                        = Some (demo_payment ''pending'')
                      \<and> p_status (demo_payment ''pending'') = ''pending''"
    and is_failed: "findPaymentByAppointment (demo_store_with ''confirmed'' ''failed'') 10
                        = Some (demo_payment ''failed'')
                      \<and> (p_status (demo_payment ''failed'') = ''failed''
                          \<or> p_status (demo_payment ''failed'') = ''cancelled'')"
    by (simp_all add: demo_find_payment)
  note c2 = mp [OF spec [OF conjunct1 [OF mp [OF conjunct1 [OF conjunct2 [OF completed]]
                  confirmed]]] is_completed]
  note c3 = mp [OF spec [OF conjunct1 [OF conjunct2 [OF mp [OF conjunct1
                  [OF conjunct2 [OF waiting]] confirmed]]]] is_pending]
  have accepted: "''telebirr'' \<in> set payment_methods
                  \<and> findUserById (demo_store ''confirmed'')
                       (a_doctorId (demo_appointment ''confirmed'')) \<noteq> None
                  \<and> ''TXN'' @ ''1700000000001'' @ ''XYZ789''
                      \<notin> p_transactionId ` set (payments (demo_store ''confirmed''))"
    by (simp add: payment_methods_def findUserById_def demo_store_def demo_appointment_def
        demo_doctor_def)
  have refused: "\<not> (''paypal'' \<in> set payment_methods
                     \<and> findUserById (demo_store ''confirmed'')
                          (a_doctorId (demo_appointment ''confirmed'')) \<noteq> None
                     \<and> ''TXN'' @ ''1700000000001'' @ ''XYZ789''
                         \<notin> p_transactionId ` set (payments (demo_store ''confirmed'')))"
    by (simp add: payment_methods_def)
  note created =
    mp [OF conjunct1 [OF conjunct2 [OF conjunct2 [OF mp [OF conjunct1
          [OF conjunct2 [OF fresh]] confirmed]]]] demo_find_payment(1) [of "''confirmed''"]]
  note rejected =
    mp [OF conjunct1 [OF conjunct2 [OF conjunct2 [OF mp [OF conjunct1
          [OF conjunct2 [OF other]] confirmed]]]] demo_find_payment(1) [of "''confirmed''"]]
  have c4: "\<exists>p. createPayment ''1700000000001'' ''XYZ789'' 1700000000001
              (demo_store ''confirmed'') demo_patient 10 ''telebirr'' demo_details
            = Done 201 p ((demo_store ''confirmed'')\<lparr>payments := [p]\<rparr>)
          \<and> p_status p = ''pending'' \<and> p_amount p = 500
          \<and> p_transactionId p = ''TXN1700000000001XYZ789''"
  proof -
    from created [unfolded if_P [OF accepted]]
    obtain p :: payment where
      "createPayment ''1700000000001'' ''XYZ789'' 1700000000001
         (demo_store ''confirmed'') demo_patient 10 ''telebirr'' demo_details
       = Done 201 p ((demo_store ''confirmed'')
                       \<lparr>payments := payments (demo_store ''confirmed'') @ [p]\<rparr>)"
      "p_status p = ''pending''" "p_amount p = 500"
      "p_transactionId p = ''TXN'' @ ''1700000000001'' @ ''XYZ789''"
      by (elim exE conjE) (rule that, assumption+)
    then show ?thesis
      by (intro exI [of _ p]) (simp add: demo_store_def)
  qed
  note c5 = rejected [unfolded if_not_P [OF refused]]
  have unheld: "''telebirr'' \<in> set payment_methods
                \<and> (\<forall>x \<in> set (payments (demo_store_with ''confirmed'' ''failed'')).
                      p_id x = p_id (demo_payment ''failed'')
                      \<or> p_transactionId x \<noteq> ''TXN'' @ ''1700000000001'' @ ''XYZ789'')"
    by (simp add: payment_methods_def demo_store_with_def)
  note again =
    mp [OF spec [OF conjunct2 [OF conjunct2 [OF conjunct2 [OF mp [OF conjunct1
          [OF conjunct2 [OF revived]] confirmed]]]]] is_failed]
  note reread = conjunct1 [OF conjunct2 [OF again [unfolded if_P [OF unheld]]]]
  have c6: "map_option p_status
        (findPaymentById
           (store_after (demo_store_with ''confirmed'' ''failed'')
              (createPayment ''1700000000001'' ''XYZ789'' 1700000000001
                 (demo_store_with ''confirmed'' ''failed'') demo_patient 10 ''telebirr''
                 demo_details)) 20)
     = Some ''pending''"
    using reread by (simp add: demo_find_payment)
  have same: "length ''XYZ789'' = length ''XYZ789''" by simp
  from mp [OF spec [OF spec [OF conjunct2 [OF conjunct2 [OF conjunct2 [OF fresh]]]]] same,
      of "''1700000000002''"]
  have c7: "generateTransactionId ''1700000000002'' ''XYZ789''
            \<noteq> generateTransactionId ''1700000000001'' ''XYZ789''"
    by simp
  show ?thesis
    by (intro conjI) (rule c1 c2 c3 c4 c5 c6 c7)+
qed

section \<open>Booking an appointment\<close>




lemma bookAppointment_conflict:
  assumes "findUserById s doctorId = Some d" and "u_role d = ''doctor''"
    and "now < dateTime"
    and "a \<in> set (appointments s)" and "conflicting doctorId dateTime a"
    and "valid_Date (dateTime - 30 * 60000) \<and> valid_Date (dateTime + 30 * 60000)"
  shows "bookAppointment now s caller doctorId dateTime memo
         = Fail 400 ''Time slot not available''"
proof -
  from assms(4,5) have "find (conflicting doctorId dateTime) (appointments s) \<noteq> None"
    by (auto simp: find_None_iff)
  then obtain b where "find (conflicting doctorId dateTime) (appointments s) = Some b"
    by auto
  with assms(1-3,6) show ?thesis
    by (simp add: bookAppointment_def Let_def)
qed

lemma bookAppointment_out_of_range:
  assumes "findUserById s doctorId = Some d" and "u_role d = ''doctor''"
    and "now < dateTime"
    and "\<not> (valid_Date (dateTime - 30 * 60000) \<and> valid_Date (dateTime + 30 * 60000))"
  shows "bookAppointment now s caller doctorId dateTime memo = Fail 500 ''Server error''"
  using assms by (auto simp: bookAppointment_def Let_def)

lemma bookAppointment_conflict_fails:
  assumes "a \<in> set (appointments s)" and "conflicting doctorId dateTime a"
  shows "failed (bookAppointment now s caller doctorId dateTime memo)"
proof -
  from assms have "find (conflicting doctorId dateTime) (appointments s) \<noteq> None"
    by (auto simp: find_None_iff)
  then obtain b where "find (conflicting doctorId dateTime) (appointments s) = Some b"
    by auto
  then show ?thesis
    by (simp add: bookAppointment_def Let_def split: option.split)
qed

lemma bookAppointment_Done:
  assumes "bookAppointment now s caller doctorId dateTime memo = Done c b s'"
  shows "now < dateTime
         \<and> (\<exists>d. findUserById s doctorId = Some d \<and> u_role d = ''doctor'')
         \<and> find (conflicting doctorId dateTime) (appointments s) = None
         \<and> c = 201
         \<and> b = \<lparr>a_id = new_ObjectId (map a_id (appointments s)),
                 a_patientId = u_id caller, a_doctorId = doctorId, a_dateTime = dateTime,
                 a_note = memo, a_status = ''pending'', a_createdAt = now\<rparr>
         \<and> s' = s\<lparr>appointments := appointments s @ [b]\<rparr>"
  using assms
  by (auto simp: bookAppointment_def Let_def split: option.splits if_splits)

lemma conflicting_iff:
  "conflicting doctorId dateTime a
   \<longleftrightarrow> a_doctorId a = doctorId \<and> \<bar>a_dateTime a - dateTime\<bar> \<le> 1800000
       \<and> (a_status a = ''pending'' \<or> a_status a = ''confirmed'')"
  by (auto simp: conflicting_def)




text \<open>
  Claim C5 as stated: a booking within 30 minutes of an existing appointment of the doctor
  that is not cancelled fails and creates nothing. The search for a conflict looks only at
  appointments whose status is \<open>pending\<close> or \<open>confirmed\<close>: with a \<open>completed\<close> appointment of
  the doctor at 5000000, a booking of the same doctor at 6000000 (less than 17 minutes
  later) succeeds, and the doctor then has two appointments, neither cancelled, within one
  window.
\<close>

theorem booking_beside_completed_appointment_counterexample:
  "bookAppointment 5500000 (demo_store ''completed'') demo_patient 1 6000000 None
     = Done 201
         \<lparr>a_id = 11, a_patientId = 2, a_doctorId = 1, a_dateTime = 6000000, a_note = None,
          a_status = ''pending'', a_createdAt = 5500000\<rparr>
         ((demo_store ''completed'')
            \<lparr>appointments :=
               [demo_appointment ''completed'',
                \<lparr>a_id = 11, a_patientId = 2, a_doctorId = 1, a_dateTime = 6000000,
                 a_note = None, a_status = ''pending'', a_createdAt = 5500000\<rparr>]\<rparr>)
   \<and> a_doctorId (demo_appointment ''completed'') = 1
   \<and> a_status (demo_appointment ''completed'') \<noteq> ''cancelled''
   \<and> \<bar>a_dateTime (demo_appointment ''completed'') - 6000000\<bar> \<le> 30 * 60000"
  by (simp add: bookAppointment_def findUserById_def conflicting_def new_ObjectId_def
      valid_Date_def demo_store_def demo_doctor_def demo_patient_def demo_appointment_def
      Let_def)

text \<open>
  Claim C5 as amended: a booking whose \<open>dateTime\<close> is within 30 minutes (inclusive, either
  side) of an appointment of the same doctor whose status is \<open>pending\<close> or \<open>confirmed\<close> fails
  and creates nothing; when the doctor exists and the time is in the future the answer is
  400 \<open>Time slot not available\<close>, unless one end of the 30-minute window around \<open>dateTime\<close>
  lies outside the range of a JavaScript \<open>Date\<close> (8640000000000000 ms either side of the
  epoch), where the answer is 500. A successful booking appends one \<open>pending\<close> appointment,
  and every \<open>pending\<close> or \<open>confirmed\<close> appointment the doctor already had is more than 30
  minutes away from it.
\<close>

theorem booking_conflicts_with_pending_or_confirmed:
  "(\<forall>a \<in> set (appointments s).
       a_doctorId a = doctorId \<and> \<bar>a_dateTime a - dateTime\<bar> \<le> 30 * 60000
       \<and> (a_status a = ''pending'' \<or> a_status a = ''confirmed'') \<longrightarrow>
         failed (bookAppointment now s caller doctorId dateTime memo)
         \<and> appointments (store_after s (bookAppointment now s caller doctorId dateTime memo))
             = appointments s
         \<and> (\<forall>d. findUserById s doctorId = Some d \<and> u_role d = ''doctor'' \<and> now < dateTime \<longrightarrow>
               bookAppointment now s caller doctorId dateTime memo
                 = (if \<bar>dateTime - 30 * 60000\<bar> \<le> 8640000000000000
                       \<and> \<bar>dateTime + 30 * 60000\<bar> \<le> 8640000000000000
                    then Fail 400 ''Time slot not available''
                    else Fail 500 ''Server error'')))
   \<and> (\<forall>c b s'. bookAppointment now s caller doctorId dateTime memo = Done c b s' \<longrightarrow>
         appointments s' = appointments s @ [b]
         \<and> a_doctorId b = doctorId \<and> a_dateTime b = dateTime \<and> a_status b = ''pending''
         \<and> (\<forall>a \<in> set (appointments s).
               a_doctorId a = doctorId
               \<and> (a_status a = ''pending'' \<or> a_status a = ''confirmed'') \<longrightarrow>
                 30 * 60000 < \<bar>a_dateTime a - a_dateTime b\<bar>))"
proof (intro conjI ballI impI allI)
  fix a
  assume a: "a \<in> set (appointments s)"
    and c: "a_doctorId a = doctorId \<and> \<bar>a_dateTime a - dateTime\<bar> \<le> 30 * 60000
            \<and> (a_status a = ''pending'' \<or> a_status a = ''confirmed'')"
  from c have conf: "conflicting doctorId dateTime a"
    by (simp add: conflicting_iff)
  show f: "failed (bookAppointment now s caller doctorId dateTime memo)"
    by (rule bookAppointment_conflict_fails [OF a conf])
  then show "appointments (store_after s (bookAppointment now s caller doctorId dateTime memo))
             = appointments s"
    by (cases "bookAppointment now s caller doctorId dateTime memo") simp_all
  fix d
  assume d: "findUserById s doctorId = Some d \<and> u_role d = ''doctor'' \<and> now < dateTime"
  show "bookAppointment now s caller doctorId dateTime memo
        = (if \<bar>dateTime - 30 * 60000\<bar> \<le> 8640000000000000
              \<and> \<bar>dateTime + 30 * 60000\<bar> \<le> 8640000000000000
           then Fail 400 ''Time slot not available''
           else Fail 500 ''Server error'')"
  proof (cases "valid_Date (dateTime - 30 * 60000) \<and> valid_Date (dateTime + 30 * 60000)")
    case True
    from d have "bookAppointment now s caller doctorId dateTime memo
                 = Fail 400 ''Time slot not available''"
      using bookAppointment_conflict [OF _ _ _ a conf True] by blast
    with True show ?thesis by (simp add: valid_Date_def)
  next
    case False
    from d have "bookAppointment now s caller doctorId dateTime memo
                 = Fail 500 ''Server error''"
      using bookAppointment_out_of_range [OF _ _ _ False] by blast
    with False show ?thesis by (simp add: valid_Date_def)
  qed
next
  fix c b s'
  assume run: "bookAppointment now s caller doctorId dateTime memo = Done c b s'"
  note facts = bookAppointment_Done [OF run]
  from facts show "appointments s' = appointments s @ [b]" by simp
  from facts show "a_doctorId b = doctorId" by simp
  from facts show d: "a_dateTime b = dateTime" by simp
  from facts show "a_status b = ''pending''" by simp
  fix a
  assume a: "a \<in> set (appointments s)"
    and own: "a_doctorId a = doctorId
              \<and> (a_status a = ''pending'' \<or> a_status a = ''confirmed'')"
  from facts have "find (conflicting doctorId dateTime) (appointments s) = None" by simp
  with a have "\<not> conflicting doctorId dateTime a"
    by (auto simp: find_None_iff)
  with own have "\<not> \<bar>a_dateTime a - dateTime\<bar> \<le> 1800000"
    by (simp add: conflicting_iff)
  then show "30 * 60000 < \<bar>a_dateTime a - a_dateTime b\<bar>"
    by (simp add: d)
qed

theorem booking_conflicts_with_pending_or_confirmed_witness:
  "demo_appointment ''confirmed'' \<in> set (appointments (demo_store ''confirmed''))
   \<and> a_doctorId (demo_appointment ''confirmed'') = 1
   \<and> \<bar>a_dateTime (demo_appointment ''confirmed'') - 5900000\<bar> \<le> 30 * 60000
   \<and> a_status (demo_appointment ''confirmed'') = ''confirmed''
   \<and> bookAppointment 4000000 (demo_store ''confirmed'') demo_patient 1 5900000 None
       = Fail 400 ''Time slot not available''
   \<and> appointments
        (store_after (demo_store ''confirmed'')
           (bookAppointment 4000000 (demo_store ''confirmed'') demo_patient 1 5900000 None))
       = appointments (demo_store ''confirmed'')
   \<and> \<not> failed (bookAppointment 4000000 (demo_store ''confirmed'') demo_patient 1 9000000 None)
   \<and> 30 * 60000 < \<bar>a_dateTime (demo_appointment ''confirmed'') - 9000000\<bar>
   \<and> demo_last_appointment \<in> set (appointments demo_last_day)
   \<and> \<bar>a_dateTime demo_last_appointment - 8639999999500000\<bar> \<le> 30 * 60000
   \<and> bookAppointment 4000000 demo_last_day demo_patient 1 8639999999500000 None
       = Fail 500 ''Server error''"
proof -
  have mem: "demo_appointment ''confirmed'' \<in> set (appointments (demo_store ''confirmed''))"
    by (simp add: demo_store_def)
  have near: "a_doctorId (demo_appointment ''confirmed'') = 1
              \<and> \<bar>a_dateTime (demo_appointment ''confirmed'') - 5900000\<bar> \<le> 30 * 60000
              \<and> (a_status (demo_appointment ''confirmed'') = ''pending''
                  \<or> a_status (demo_appointment ''confirmed'') = ''confirmed'')"
    by (simp add: demo_appointment_def)
  have future: "(4000000::int) < 5900000" by simp
  note clash =
    booking_conflicts_with_pending_or_confirmed
      [where s = "demo_store ''confirmed''" and doctorId = 1 and dateTime = 5900000
         and now = 4000000 and caller = demo_patient and memo = None]
  note free =
    booking_conflicts_with_pending_or_confirmed
      [where s = "demo_store ''confirmed''" and doctorId = 1 and dateTime = 9000000
         and now = 4000000 and caller = demo_patient and memo = None]
  note c0 = mp [OF bspec [OF conjunct1 [OF clash] mem] near]
  have who: "findUserById (demo_store ''confirmed'') 1 = Some demo_doctor
             \<and> u_role demo_doctor = ''doctor'' \<and> (4000000::int) < 5900000"
    using demo_find_doctor(1) [of "''confirmed''"] demo_find_doctor(2) future by simp
  have c1: "bookAppointment 4000000 (demo_store ''confirmed'') demo_patient 1 5900000 None
            = Fail 400 ''Time slot not available''"
    using mp [OF spec [OF conjunct2 [OF conjunct2 [OF c0]]] who] by simp
  note c2 = conjunct1 [OF conjunct2 [OF c0]]
  have last: "demo_last_appointment \<in> set (appointments demo_last_day)"
    by (simp add: demo_last_day_def)
  have late: "a_doctorId demo_last_appointment = 1
              \<and> \<bar>a_dateTime demo_last_appointment - 8639999999500000\<bar> \<le> 30 * 60000
              \<and> (a_status demo_last_appointment = ''pending''
                  \<or> a_status demo_last_appointment = ''confirmed'')"
    by (simp add: demo_last_appointment_def demo_appointment_def)
  note beyond =
    booking_conflicts_with_pending_or_confirmed
      [where s = demo_last_day and doctorId = 1 and dateTime = 8639999999500000
         and now = 4000000 and caller = demo_patient and memo = None]
  have who_late: "findUserById demo_last_day 1 = Some demo_doctor
                  \<and> u_role demo_doctor = ''doctor'' \<and> (4000000::int) < 8639999999500000"
    by (simp add: findUserById_def demo_last_day_def demo_store_def demo_doctor_def)
  have c4: "bookAppointment 4000000 demo_last_day demo_patient 1 8639999999500000 None
            = Fail 500 ''Server error''"
    using mp [OF spec [OF conjunct2 [OF conjunct2
                [OF mp [OF bspec [OF conjunct1 [OF beyond] last] late]]]] who_late]
    by simp
  note n4 = conjunct1 [OF conjunct2 [OF late]]
  have run: "bookAppointment 4000000 (demo_store ''confirmed'') demo_patient 1 9000000 None
       = Done 201
           \<lparr>a_id = 11, a_patientId = 2, a_doctorId = 1, a_dateTime = 9000000, a_note = None,
            a_status = ''pending'', a_createdAt = 4000000\<rparr>
           ((demo_store ''confirmed'')
              \<lparr>appointments :=
                 [demo_appointment ''confirmed'',
                  \<lparr>a_id = 11, a_patientId = 2, a_doctorId = 1, a_dateTime = 9000000,
                   a_note = None, a_status = ''pending'', a_createdAt = 4000000\<rparr>]\<rparr>)"
    by (simp add: bookAppointment_def findUserById_def conflicting_def new_ObjectId_def
        valid_Date_def demo_store_def demo_doctor_def demo_patient_def demo_appointment_def
        Let_def)
  have ok: "\<not> failed (bookAppointment 4000000 (demo_store ''confirmed'') demo_patient 1
                        9000000 None)"
    unfolding run by simp
  have own: "a_doctorId (demo_appointment ''confirmed'') = 1
             \<and> (a_status (demo_appointment ''confirmed'') = ''pending''
                 \<or> a_status (demo_appointment ''confirmed'') = ''confirmed'')"
    by (simp add: demo_appointment_def)
  note after = mp [OF spec [OF spec [OF spec [OF conjunct2 [OF free]]]] run]
  note apart = mp [OF bspec [OF conjunct2 [OF conjunct2 [OF conjunct2 [OF conjunct2 [OF after]]]] mem] own]
  have c3: "30 * 60000 < \<bar>a_dateTime (demo_appointment ''confirmed'') - 9000000\<bar>"
    using apart by simp
  have n1: "a_doctorId (demo_appointment ''confirmed'') = 1"
    and n2: "\<bar>a_dateTime (demo_appointment ''confirmed'') - 5900000\<bar> \<le> 30 * 60000"
    and n3: "a_status (demo_appointment ''confirmed'') = ''confirmed''"
    by (simp_all add: demo_appointment_def)
  show ?thesis
    by (intro conjI) (rule mem n1 n2 n3 c1 c2 ok c3 last n4 c4)+
qed

section \<open>Listing one's appointments\<close>

lemma matches_my_filter:
  "matches (my_filter now caller status upcoming) a
   \<longleftrightarrow> (u_role caller = ''patient'' \<longrightarrow> a_patientId a = u_id caller)
       \<and> (u_role caller \<noteq> ''patient'' \<and> u_role caller = ''doctor''
            \<longrightarrow> a_doctorId a = u_id caller)
       \<and> (truthy status \<longrightarrow> status = Some (a_status a))
       \<and> (upcoming = Some ''true'' \<longrightarrow> now \<le> a_dateTime a)"
  by (cases status) (auto simp: matches_def my_filter_def)

text \<open>
  Claim C8. \<open>getMyAppointments\<close> answers 200 with a list that is sorted by \<open>dateTime\<close>
  ascending, leaves the store alone, and holds exactly the appointments of the collection
  that pass the filter: the caller is the patient when the caller's role is \<open>patient\<close>, the
  doctor when it is \<open>doctor\<close>; the status is the requested one when a non-empty status is
  given; the \<open>dateTime\<close> is not before the clock when \<open>upcoming\<close> is \<open>true\<close>.
\<close>

theorem getMyAppointments_filtered_and_sorted:
  "\<exists>xs. getMyAppointments now s caller status upcoming = Done 200 xs s
        \<and> sorted (map a_dateTime xs)
        \<and> set xs = {a \<in> set (appointments s). matches (my_filter now caller status upcoming) a}
        \<and> length xs
            = length (filter (matches (my_filter now caller status upcoming)) (appointments s))
        \<and> (u_role caller = ''patient'' \<longrightarrow> (\<forall>a \<in> set xs. a_patientId a = u_id caller))
        \<and> (u_role caller = ''doctor'' \<longrightarrow> (\<forall>a \<in> set xs. a_doctorId a = u_id caller))
        \<and> (truthy status \<longrightarrow> (\<forall>a \<in> set xs. status = Some (a_status a)))
        \<and> (upcoming = Some ''true'' \<longrightarrow> (\<forall>a \<in> set xs. now \<le> a_dateTime a))"
proof -
  let ?f = "my_filter now caller status upcoming"
  let ?xs = "sort_key a_dateTime (filter (matches ?f) (appointments s))"
  have run: "getMyAppointments now s caller status upcoming = Done 200 ?xs s"
    by (simp add: getMyAppointments_def)
  have srt: "sorted (map a_dateTime ?xs)"
    by (rule sorted_sort_key)
  have mem: "set ?xs = {a \<in> set (appointments s). matches ?f a}"
    by simp
  have len: "length ?xs = length (filter (matches ?f) (appointments s))"
    by simp
  have pat: "u_role caller = ''patient'' \<longrightarrow> (\<forall>a \<in> set ?xs. a_patientId a = u_id caller)"
    unfolding mem by (simp add: matches_my_filter)
  have doc: "u_role caller = ''doctor'' \<longrightarrow> (\<forall>a \<in> set ?xs. a_doctorId a = u_id caller)"
    unfolding mem by (simp add: matches_my_filter)
  have sta: "truthy status \<longrightarrow> (\<forall>a \<in> set ?xs. status = Some (a_status a))"
    unfolding mem by (simp add: matches_my_filter)
  have upc: "upcoming = Some ''true'' \<longrightarrow> (\<forall>a \<in> set ?xs. now \<le> a_dateTime a)"
    unfolding mem by (simp add: matches_my_filter)
  from run srt mem len pat doc sta upc show ?thesis
    by (intro exI [of _ ?xs] conjI)
qed

theorem getMyAppointments_filtered_and_sorted_witness:
  "u_role demo_patient = ''patient''
   \<and> (\<exists>xs. getMyAppointments 6000000 demo_schedule demo_patient None None
             = Done 200 xs demo_schedule
           \<and> sorted (map a_dateTime xs)
           \<and> (\<forall>a \<in> set xs. a_patientId a = u_id demo_patient))
   \<and> map a_id
        (case getMyAppointments 6000000 demo_schedule demo_patient None None of
           Done c xs s' \<Rightarrow> xs | Fail c m \<Rightarrow> [])
       = [10, 12]
   \<and> u_role demo_doctor = ''doctor'' \<and> truthy (Some ''confirmed'')
   \<and> (\<exists>xs. getMyAppointments 6000000 demo_schedule demo_doctor (Some ''confirmed'')
               (Some ''true'')
             = Done 200 xs demo_schedule
           \<and> (\<forall>a \<in> set xs. a_doctorId a = u_id demo_doctor)
           \<and> (\<forall>a \<in> set xs. Some ''confirmed'' = Some (a_status a))
           \<and> (\<forall>a \<in> set xs. 6000000 \<le> a_dateTime a))
   \<and> map a_id
        (case getMyAppointments 6000000 demo_schedule demo_doctor (Some ''confirmed'')
                (Some ''true'') of
           Done c xs s' \<Rightarrow> xs | Fail c m \<Rightarrow> [])
       = [13]"
proof -
  have patient: "u_role demo_patient = ''patient''"
    by (simp add: demo_patient_def)
  have doctor: "u_role demo_doctor = ''doctor''"
    by (simp add: demo_doctor_def)
  have given: "truthy (Some ''confirmed'')" by simp
  have wanted: "Some ''true'' = Some ''true''" by simp
  from getMyAppointments_filtered_and_sorted [of 6000000 demo_schedule demo_patient None None]
  obtain xs where xs:
    "getMyAppointments 6000000 demo_schedule demo_patient None None = Done 200 xs demo_schedule"
    "sorted (map a_dateTime xs)"
    "u_role demo_patient = ''patient'' \<longrightarrow> (\<forall>a \<in> set xs. a_patientId a = u_id demo_patient)"
    by blast
  from xs(3) patient have mine: "\<forall>a \<in> set xs. a_patientId a = u_id demo_patient" by (rule mp)
  from getMyAppointments_filtered_and_sorted
         [of 6000000 demo_schedule demo_doctor "Some ''confirmed''" "Some ''true''"]
  obtain ys where ys:
    "getMyAppointments 6000000 demo_schedule demo_doctor (Some ''confirmed'') (Some ''true'')
       = Done 200 ys demo_schedule"
    "u_role demo_doctor = ''doctor'' \<longrightarrow> (\<forall>a \<in> set ys. a_doctorId a = u_id demo_doctor)"
    "truthy (Some ''confirmed'') \<longrightarrow> (\<forall>a \<in> set ys. Some ''confirmed'' = Some (a_status a))"
    "Some ''true'' = Some ''true'' \<longrightarrow> (\<forall>a \<in> set ys. 6000000 \<le> a_dateTime a)"
    by blast
  note theirs = mp [OF ys(2) doctor] mp [OF ys(3) given] mp [OF ys(4) wanted]
  have l1: "map a_id
        (case getMyAppointments 6000000 demo_schedule demo_patient None None of
           Done c xs s' \<Rightarrow> xs | Fail c m \<Rightarrow> [])
       = [10, 12]"
    by (simp add: getMyAppointments_def my_filter_def matches_def demo_schedule_def
        demo_patient_def demo_appointment_def)
  have l2: "map a_id
        (case getMyAppointments 6000000 demo_schedule demo_doctor (Some ''confirmed'')
                (Some ''true'') of
           Done c xs s' \<Rightarrow> xs | Fail c m \<Rightarrow> [])
       = [13]"
    by (simp add: getMyAppointments_def my_filter_def matches_def demo_schedule_def
        demo_doctor_def demo_appointment_def)
  have e1: "\<exists>xs. getMyAppointments 6000000 demo_schedule demo_patient None None
             = Done 200 xs demo_schedule
           \<and> sorted (map a_dateTime xs)
           \<and> (\<forall>a \<in> set xs. a_patientId a = u_id demo_patient)"
    using xs(1,2) mine by (intro exI [of _ xs] conjI)
  have e2: "\<exists>xs. getMyAppointments 6000000 demo_schedule demo_doctor (Some ''confirmed'')
               (Some ''true'')
             = Done 200 xs demo_schedule
           \<and> (\<forall>a \<in> set xs. a_doctorId a = u_id demo_doctor)
           \<and> (\<forall>a \<in> set xs. Some ''confirmed'' = Some (a_status a))
           \<and> (\<forall>a \<in> set xs. 6000000 \<le> a_dateTime a)"
    using ys(1) theirs by (intro exI [of _ ys] conjI)
  show ?thesis
    by (intro conjI) (rule patient doctor given e1 e2 l1 l2)+
qed

section \<open>Updating a prescription\<close>

lemma findPrescriptionById_id: "findPrescriptionById s i = Some r \<Longrightarrow> rx_id r = i"
  by (auto simp: findPrescriptionById_def find_Some_iff)

lemma findPrescriptionById_save:
  "findPrescriptionById s (rx_id r) = Some q \<Longrightarrow>
   findPrescriptionById (savePrescription r s) (rx_id r) = Some r"
  by (simp add: findPrescriptionById_def savePrescription_def find_replace_first)

lemma findPrescriptionById_save_other:
  "j \<noteq> rx_id r \<Longrightarrow>
   findPrescriptionById (savePrescription r s) j = findPrescriptionById s j"
  unfolding findPrescriptionById_def savePrescription_def
  by (simp, rule find_replace_first_other) auto

lemma truthy_assign_string: "\<not> truthy v \<Longrightarrow> assign_string v old = old"
  by (cases v) auto

lemma truthy_assign_optional: "\<not> truthy v \<Longrightarrow> assign_optional v old = old"
  by (cases v) auto

lemma updatePrescription_cases:
  assumes "findPrescriptionById s i = Some r"
    and "rx_doctorId r = u_id caller \<or> u_role caller = ''admin''"
  shows "updatePrescription now s caller i body = Fail 500 ''Server error''
         \<or> updatePrescription now s caller i body
             = Done 200 (assign_fields now body r) (savePrescription (assign_fields now body r) s)"
  using assms by (simp add: updatePrescription_def Let_def)

lemma updatePrescription_reread:
  assumes "findPrescriptionById s i = Some r"
    and "rx_doctorId r = u_id caller \<or> u_role caller = ''admin''"
  shows "findPrescriptionById (store_after s (updatePrescription now s caller i body)) i
         = Some (if failed (updatePrescription now s caller i body) then r
                 else assign_fields now body r)"
proof -
  have id: "rx_id (assign_fields now body r) = i"
    using assms(1) by (simp add: assign_fields_def findPrescriptionById_id)
  have "findPrescriptionById (savePrescription (assign_fields now body r) s)
          (rx_id (assign_fields now body r)) = Some (assign_fields now body r)"
    by (rule findPrescriptionById_save [of s _ r]) (simp add: id assms(1))
  then have saved: "findPrescriptionById (savePrescription (assign_fields now body r) s) i
                    = Some (assign_fields now body r)"
    by (simp add: id)
  from updatePrescription_cases [OF assms, of now body] show ?thesis
  proof
    assume "updatePrescription now s caller i body = Fail 500 ''Server error''"
    then show ?thesis by (simp add: assms(1))
  next
    assume "updatePrescription now s caller i body
            = Done 200 (assign_fields now body r) (savePrescription (assign_fields now body r) s)"
    then show ?thesis by (simp add: saved)
  qed
qed

lemma updatePrescription_others:
  assumes "findPrescriptionById s i = Some r"
    and "rx_doctorId r = u_id caller \<or> u_role caller = ''admin''"
    and "j \<noteq> i"
  shows "findPrescriptionById (store_after s (updatePrescription now s caller i body)) j
         = findPrescriptionById s j"
proof -
  have id: "rx_id (assign_fields now body r) = i"
    using assms(1) by (simp add: assign_fields_def findPrescriptionById_id)
  from updatePrescription_cases [OF assms(1,2), of now body] show ?thesis
  proof
    assume "updatePrescription now s caller i body = Fail 500 ''Server error''"
    then show ?thesis by simp
  next
    assume "updatePrescription now s caller i body
            = Done 200 (assign_fields now body r) (savePrescription (assign_fields now body r) s)"
    then show ?thesis
      using findPrescriptionById_save_other [of j "assign_fields now body r" s] assms(3)
      by (simp add: id)
  qed
qed

lemma assign_fields_absent:
  "\<not> truthy (b_diagnosis body) \<longrightarrow> rx_diagnosis (assign_fields now body r) = rx_diagnosis r"
  "b_medications body = None \<longrightarrow> rx_medications (assign_fields now body r) = rx_medications r"
  "\<not> truthy (b_instructions body) \<longrightarrow>
     rx_instructions (assign_fields now body r) = rx_instructions r"
  "b_followUpDate body = None \<longrightarrow>
     rx_followUpDate (assign_fields now body r) = rx_followUpDate r"
  "\<not> truthy (b_notes body) \<longrightarrow> rx_notes (assign_fields now body r) = rx_notes r"
  "\<not> truthy (b_status body) \<longrightarrow> rx_status (assign_fields now body r) = rx_status r"
  by (simp_all add: assign_fields_def truthy_assign_string truthy_assign_optional)

lemma assign_fields_fixed:
  "rx_id (assign_fields now body r) = rx_id r"
  "rx_appointmentId (assign_fields now body r) = rx_appointmentId r"
  "rx_doctorId (assign_fields now body r) = rx_doctorId r"
  "rx_patientId (assign_fields now body r) = rx_patientId r"
  "rx_createdAt (assign_fields now body r) = rx_createdAt r"
  by (simp_all add: assign_fields_def)

lemma truthy_assign_string_given: "truthy v \<Longrightarrow> Some (assign_string v old) = v"
  by (cases v) auto

lemma truthy_assign_optional_given: "truthy v \<Longrightarrow> assign_optional v old = v"
  by (cases v) auto

lemma assign_fields_supplied:
  "truthy (b_diagnosis body) \<longrightarrow> Some (rx_diagnosis (assign_fields now body r)) = b_diagnosis body"
  "\<forall>ms. b_medications body = Some ms \<longrightarrow> rx_medications (assign_fields now body r) = ms"
  "truthy (b_instructions body) \<longrightarrow>
     rx_instructions (assign_fields now body r) = b_instructions body"
  "\<forall>d. b_followUpDate body = Some d \<longrightarrow> rx_followUpDate (assign_fields now body r) = Some d"
  "truthy (b_notes body) \<longrightarrow> rx_notes (assign_fields now body r) = b_notes body"
  "truthy (b_status body) \<longrightarrow> Some (rx_status (assign_fields now body r)) = b_status body"
  by (simp_all add: assign_fields_def truthy_assign_string_given truthy_assign_optional_given)

text \<open>
  Claim C9 as stated: a field that is absent or empty in the request is left unchanged.
  The guard of each assignment is JavaScript truthiness, and an empty array is truthy: a
  request by the prescription's doctor whose only field is an empty medication list
  succeeds and replaces the stored list of one medication by the empty list.
\<close>

theorem updatePrescription_empty_medications_counterexample:
  "b_medications (no_fields\<lparr>b_medications := Some []\<rparr>) = Some []
   \<and> findPrescriptionById demo_pharmacy 30 = Some demo_prescription
   \<and> rx_medications demo_prescription = [demo_medication]
   \<and> updatePrescription 7 demo_pharmacy demo_doctor 30 (no_fields\<lparr>b_medications := Some []\<rparr>)
       = Done 200
           (demo_prescription\<lparr>rx_medications := [], rx_updatedAt := 7\<rparr>)
           (demo_pharmacy
              \<lparr>prescriptions := [demo_prescription\<lparr>rx_medications := [], rx_updatedAt := 7\<rparr>]\<rparr>)"
  by (simp add: updatePrescription_def assign_fields_def savePrescription_def
      findPrescriptionById_def demo_pharmacy_def demo_prescription_def demo_doctor_def
      no_fields_def Let_def)

text \<open>
  Claim C9 as amended: for a call by the prescription's doctor or an admin, re-reading the
  prescription afterwards shows every field that the request leaves out, and every string
  field (diagnosis, instructions, notes, status) that the request gives as the empty
  string, unchanged; the identifying fields and \<open>createdAt\<close> are never touched, and every
  other prescription reads as before. When the call succeeds, each string field given
  non-empty, the follow-up date when given, and the medication list when given (an empty
  list included) hold the value of the request.
\<close>

theorem updatePrescription_overwrites_truthy_fields_only:
  assumes "findPrescriptionById s i = Some r"
    and "rx_doctorId r = u_id caller \<or> u_role caller = ''admin''"
  shows "\<exists>r'. findPrescriptionById (store_after s (updatePrescription now s caller i body)) i
               = Some r'
           \<and> (\<not> truthy (b_diagnosis body) \<longrightarrow> rx_diagnosis r' = rx_diagnosis r)
           \<and> (b_medications body = None \<longrightarrow> rx_medications r' = rx_medications r)
           \<and> (\<not> truthy (b_instructions body) \<longrightarrow> rx_instructions r' = rx_instructions r)
           \<and> (b_followUpDate body = None \<longrightarrow> rx_followUpDate r' = rx_followUpDate r)
           \<and> (\<not> truthy (b_notes body) \<longrightarrow> rx_notes r' = rx_notes r)
           \<and> (\<not> truthy (b_status body) \<longrightarrow> rx_status r' = rx_status r)
           \<and> rx_id r' = rx_id r \<and> rx_appointmentId r' = rx_appointmentId r
           \<and> rx_doctorId r' = rx_doctorId r \<and> rx_patientId r' = rx_patientId r
           \<and> rx_createdAt r' = rx_createdAt r
           \<and> (\<not> failed (updatePrescription now s caller i body) \<longrightarrow>
                (truthy (b_diagnosis body) \<longrightarrow> Some (rx_diagnosis r') = b_diagnosis body)
                \<and> (\<forall>ms. b_medications body = Some ms \<longrightarrow> rx_medications r' = ms)
                \<and> (truthy (b_instructions body) \<longrightarrow> rx_instructions r' = b_instructions body)
                \<and> (\<forall>d. b_followUpDate body = Some d \<longrightarrow> rx_followUpDate r' = Some d)
                \<and> (truthy (b_notes body) \<longrightarrow> rx_notes r' = b_notes body)
                \<and> (truthy (b_status body) \<longrightarrow> Some (rx_status r') = b_status body))
           \<and> (\<forall>j. j \<noteq> i \<longrightarrow>
                findPrescriptionById (store_after s (updatePrescription now s caller i body)) j
                = findPrescriptionById s j)"
proof (cases "failed (updatePrescription now s caller i body)")
  case True
  then have "findPrescriptionById (store_after s (updatePrescription now s caller i body)) i
             = Some r"
    using updatePrescription_reread [OF assms, of now body] by simp
  with True updatePrescription_others [OF assms, of _ now body] show ?thesis
    by (intro exI [of _ r]) simp
next
  case False
  let ?r' = "assign_fields now body r"
  from False have re: "findPrescriptionById
                         (store_after s (updatePrescription now s caller i body)) i = Some ?r'"
    using updatePrescription_reread [OF assms, of now body] by simp
  have others: "\<forall>j. j \<noteq> i \<longrightarrow>
                  findPrescriptionById (store_after s (updatePrescription now s caller i body)) j
                  = findPrescriptionById s j"
    using updatePrescription_others [OF assms, of _ now body] by blast
  have absent:
    "\<not> truthy (b_diagnosis body) \<longrightarrow> rx_diagnosis ?r' = rx_diagnosis r"
    "b_medications body = None \<longrightarrow> rx_medications ?r' = rx_medications r"
    "\<not> truthy (b_instructions body) \<longrightarrow> rx_instructions ?r' = rx_instructions r"
    "b_followUpDate body = None \<longrightarrow> rx_followUpDate ?r' = rx_followUpDate r"
    "\<not> truthy (b_notes body) \<longrightarrow> rx_notes ?r' = rx_notes r"
    "\<not> truthy (b_status body) \<longrightarrow> rx_status ?r' = rx_status r"
    by (rule assign_fields_absent)+
  have supplied:
    "\<not> failed (updatePrescription now s caller i body) \<longrightarrow>
       (truthy (b_diagnosis body) \<longrightarrow> Some (rx_diagnosis ?r') = b_diagnosis body)
       \<and> (\<forall>ms. b_medications body = Some ms \<longrightarrow> rx_medications ?r' = ms)
       \<and> (truthy (b_instructions body) \<longrightarrow> rx_instructions ?r' = b_instructions body)
       \<and> (\<forall>d. b_followUpDate body = Some d \<longrightarrow> rx_followUpDate ?r' = Some d)
       \<and> (truthy (b_notes body) \<longrightarrow> rx_notes ?r' = b_notes body)
       \<and> (truthy (b_status body) \<longrightarrow> Some (rx_status ?r') = b_status body)"
    using assign_fields_supplied [of body now r] by simp
  show ?thesis
    by (intro exI [of _ ?r'] conjI) (rule re others absent supplied assign_fields_fixed)+
qed

theorem updatePrescription_overwrites_truthy_fields_only_witness:
  "findPrescriptionById demo_pharmacy 30 = Some demo_prescription
   \<and> rx_doctorId demo_prescription = u_id demo_doctor
   \<and> b_diagnosis demo_update = Some [] \<and> \<not> truthy (b_diagnosis demo_update)
   \<and> b_medications demo_update = None
   \<and> truthy (b_notes demo_update)
   \<and> \<not> failed (updatePrescription 7 demo_pharmacy demo_doctor 30 demo_update)
   \<and> (\<exists>r'. findPrescriptionById
               (store_after demo_pharmacy
                  (updatePrescription 7 demo_pharmacy demo_doctor 30 demo_update)) 30
             = Some r'
           \<and> rx_diagnosis r' = ''Flu''
           \<and> rx_medications r' = [demo_medication]
           \<and> rx_notes r' = Some ''Review in a week'')"
proof -
  have found: "findPrescriptionById demo_pharmacy 30 = Some demo_prescription"
    by (simp add: findPrescriptionById_def demo_pharmacy_def demo_prescription_def)
  have owner: "rx_doctorId demo_prescription = u_id demo_doctor"
    by (simp add: demo_prescription_def demo_doctor_def)
  then have auth: "rx_doctorId demo_prescription = u_id demo_doctor
                   \<or> u_role demo_doctor = ''admin''"
    by (rule disjI1)
  have empty: "b_diagnosis demo_update = Some []"
    and falsy: "\<not> truthy (b_diagnosis demo_update)"
    and absent: "b_medications demo_update = None"
    and given: "truthy (b_notes demo_update)"
    and remark: "b_notes demo_update = Some ''Review in a week''"
    by (simp_all add: demo_update_def no_fields_def)
  have ok: "\<not> failed (updatePrescription 7 demo_pharmacy demo_doctor 30 demo_update)"
    by (simp add: updatePrescription_def found owner absent demo_update_def no_fields_def
        Let_def)
  have old: "rx_diagnosis demo_prescription = ''Flu''"
    "rx_medications demo_prescription = [demo_medication]"
    by (simp_all add: demo_prescription_def)
  from updatePrescription_overwrites_truthy_fields_only [OF found auth, of 7 demo_update]
  obtain r' :: prescription where r':
    "findPrescriptionById
       (store_after demo_pharmacy
          (updatePrescription 7 demo_pharmacy demo_doctor 30 demo_update)) 30 = Some r'"
    "\<not> truthy (b_diagnosis demo_update) \<longrightarrow> rx_diagnosis r' = rx_diagnosis demo_prescription"
    "b_medications demo_update = None \<longrightarrow> rx_medications r' = rx_medications demo_prescription"
    "\<not> failed (updatePrescription 7 demo_pharmacy demo_doctor 30 demo_update) \<longrightarrow>
       (truthy (b_diagnosis demo_update)
          \<longrightarrow> Some (rx_diagnosis r') = b_diagnosis demo_update)
       \<and> (\<forall>ms. b_medications demo_update = Some ms \<longrightarrow> rx_medications r' = ms)
       \<and> (truthy (b_instructions demo_update)
            \<longrightarrow> rx_instructions r' = b_instructions demo_update)
       \<and> (\<forall>d. b_followUpDate demo_update = Some d \<longrightarrow> rx_followUpDate r' = Some d)
       \<and> (truthy (b_notes demo_update) \<longrightarrow> rx_notes r' = b_notes demo_update)
       \<and> (truthy (b_status demo_update) \<longrightarrow> Some (rx_status r') = b_status demo_update)"
    by (elim exE conjE) (rule that, assumption+)
  have d: "rx_diagnosis r' = ''Flu''"
    using mp [OF r'(2) falsy] by (simp add: old)
  have m: "rx_medications r' = [demo_medication]"
    using mp [OF r'(3) absent] by (simp add: old)
  have n: "rx_notes r' = Some ''Review in a week''"
    using mp [OF r'(4) ok] given by (simp add: remark)
  have e: "\<exists>r'. findPrescriptionById
               (store_after demo_pharmacy
                  (updatePrescription 7 demo_pharmacy demo_doctor 30 demo_update)) 30
             = Some r'
           \<and> rx_diagnosis r' = ''Flu''
           \<and> rx_medications r' = [demo_medication]
           \<and> rx_notes r' = Some ''Review in a week''"
    using r'(1) d m n by (intro exI [of _ r'] conjI)
  show ?thesis
    by (intro conjI) (rule found owner empty falsy absent given ok e)+
qed

section \<open>Creating a prescription\<close>











end
